theory Spec2Isabelle
  imports Complex_Main "HOL-Library.Log_Nat"
begin

section \<open>Strings and numbers of the host language\<close>

text \<open>
  A prompt is a list of code units; the model keeps the code units below 256, the Latin-1
  range. \<^verbatim>\<open>toLowerCase\<close> maps the capitals \<open>A\<close> to \<open>Z\<close> and \<open>U+00C0\<close> to \<open>U+00DE\<close> (without
  the multiplication sign \<open>U+00D7\<close>) to the code unit 32 above them. \<^verbatim>\<open>toUpperCase\<close> maps
  the small letters \<open>a\<close> to \<open>z\<close> and \<open>U+00E0\<close> to \<open>U+00FE\<close> (without the division sign
  \<open>U+00F7\<close>) to the code unit 32 below them. The upper-case forms of \<open>U+00B5\<close>, \<open>U+00DF\<close>
  and \<open>U+00FF\<close> are not single code units below 256, and \<open>toUpperChar\<close> leaves these three
  alone; the program upper-cases only what \<^verbatim>\<open>\w+\<close> or an alternative of ASCII literals has
  captured, which contains none of them.

  A number is an IEEE double: NaN, an infinity, or a finite double, which the model holds
  as its exact rational value (the sign of zero is not kept). \<open>nearest\<close> rounds a rational
  to the nearest double, to the even significand on a tie, and \<open>fl\<close> is the result of an
  operation whose exact result is the given rational: an infinity from \<open>2^1024\<close> on. A
  decimal literal of the program denotes the double nearest to it. Sums, differences and
  products are rounded by \<open>fl\<close>; comparisons are exact, as they are on doubles.
\<close>

definition isDigit :: "char \<Rightarrow> bool" where
  "isDigit c = (let n = (of_char c :: nat) in 48 \<le> n \<and> n \<le> 57)"

definition isWordChar :: "char \<Rightarrow> bool" where
  "isWordChar c = (let n = (of_char c :: nat) in
     (48 \<le> n \<and> n \<le> 57) \<or> (65 \<le> n \<and> n \<le> 90) \<or> n = 95 \<or> (97 \<le> n \<and> n \<le> 122))"

definition isSpace :: "char \<Rightarrow> bool" where
  "isSpace c = (let n = (of_char c :: nat) in (9 \<le> n \<and> n \<le> 13) \<or> n = 32 \<or> n = 160)"

definition isLineTerminator :: "char \<Rightarrow> bool" where
  "isLineTerminator c = (let n = (of_char c :: nat) in n = 10 \<or> n = 13)"

definition toLowerChar :: "char \<Rightarrow> char" where
  "toLowerChar c =
     (let n = (of_char c :: nat)
      in if (65 \<le> n \<and> n \<le> 90) \<or> (192 \<le> n \<and> n \<le> 222 \<and> n \<noteq> 215) then char_of (n + 32)
         else c)"

definition toUpperChar :: "char \<Rightarrow> char" where
  "toUpperChar c =
     (let n = (of_char c :: nat)
      in if (97 \<le> n \<and> n \<le> 122) \<or> (224 \<le> n \<and> n \<le> 254 \<and> n \<noteq> 247) then char_of (n - 32)
         else c)"

definition toLowerCase :: "string \<Rightarrow> string" where
  "toLowerCase s = map toLowerChar s"

definition toUpperCase :: "string \<Rightarrow> string" where
  "toUpperCase s = map toUpperChar s"

fun startsWith :: "string \<Rightarrow> string \<Rightarrow> bool" where
  "startsWith s [] = True"
| "startsWith [] (y # ys) = False"
| "startsWith (x # xs) (y # ys) = (x = y \<and> startsWith xs ys)"

fun includes_str :: "string \<Rightarrow> string \<Rightarrow> bool" where
  "includes_str [] t = (t = [])"
| "includes_str (x # xs) t = (startsWith (x # xs) t \<or> includes_str xs t)"

text \<open>\<^verbatim>\<open>s.slice(0, 4)\<close> and \<^verbatim>\<open>s.slice(-4)\<close>.\<close>

definition slice_first :: "nat \<Rightarrow> string \<Rightarrow> string" where
  "slice_first k s = take k s"

definition slice_last :: "nat \<Rightarrow> string \<Rightarrow> string" where
  "slice_last k s = drop (length s - k) s"

fun join :: "string \<Rightarrow> string list \<Rightarrow> string" where
  "join sep [] = []"
| "join sep [x] = x"
| "join sep (x # y # ys) = x @ sep @ join sep (y # ys)"

datatype number = NaN | Num rat | PosInfinity | NegInfinity

text \<open>
  \<open>binexp x\<close> is the binary exponent of a positive rational, the \<open>e\<close> with
  \<open>2^e \<le> x < 2^(e+1)\<close>. A double with this exponent is a multiple of \<open>2^(e-52)\<close>; below
  \<open>2^(-1022)\<close> the doubles are the multiples of \<open>2^(-1074)\<close>.
\<close>

definition binexp :: "rat \<Rightarrow> int" where
  "binexp x =
     (let (p, q) = quotient_of x;
          d = int (floorlog 2 (nat p)) - int (floorlog 2 (nat q))
      in if 2 powi d \<le> x then d else d - 1)"

definition round_even :: "rat \<Rightarrow> int" where
  "round_even y =
     (let n = \<lfloor>y\<rfloor>; r = y - of_int n
      in if r < 1 / 2 then n else if 1 / 2 < r then n + 1 else if even n then n else n + 1)"

definition nearest :: "rat \<Rightarrow> rat" where
  "nearest x =
     (if x = 0 then 0
      else let e = max (binexp \<bar>x\<bar>) (- 1022); u = 2 powi (e - 52)
           in of_int (round_even (x / u)) * u)"

definition fl :: "rat \<Rightarrow> number" where
  "fl x =
     (let r = nearest x
      in if 2 powi 1024 \<le> r then PosInfinity
         else if r \<le> - (2 powi 1024) then NegInfinity
         else Num r)"

fun num_neg :: "number \<Rightarrow> number" where
  "num_neg NaN = NaN"
| "num_neg (Num q) = Num (- q)"
| "num_neg PosInfinity = NegInfinity"
| "num_neg NegInfinity = PosInfinity"

definition digitChar :: "nat \<Rightarrow> char" where
  "digitChar d = ''0123456789'' ! d"

definition digitVal :: "char \<Rightarrow> nat" where
  "digitVal c = of_char c - 48"

fun show_nat :: "nat \<Rightarrow> string" where
  "show_nat n = (if n < 10 then [digitChar n] else show_nat (n div 10) @ [digitChar (n mod 10)])"

declare show_nat.simps [simp del]

definition read_nat :: "string \<Rightarrow> nat" where
  "read_nat ds = foldl (\<lambda>acc c. 10 * acc + digitVal c) 0 ds"

text \<open>
  \<^verbatim>\<open>parseFloat\<close>: leading white space is skipped, then the longest prefix that is a decimal
  literal (sign, digits, fraction, exponent) or \<^verbatim>\<open>Infinity\<close> is read; with no such prefix
  the result is NaN. The value of the literal is rounded to a double. The argument
  \<^verbatim>\<open>undefined\<close> (an absent capture group) gives NaN.
\<close>

definition pow10 :: "int \<Rightarrow> rat" where
  "pow10 e = (if 0 \<le> e then 10 ^ nat e else 1 / 10 ^ nat (- e))"

definition parse_exponent :: "string \<Rightarrow> int" where
  "parse_exponent r =
     (case r of
        [] \<Rightarrow> 0
      | e # r1 \<Rightarrow>
          if e = CHR ''e'' \<or> e = CHR ''E'' then
            (let (neg, r2) = (case r1 of
                                [] \<Rightarrow> (False, r1)
                              | sg # r' \<Rightarrow> if sg = CHR ''-'' then (True, r')
                                           else if sg = CHR ''+'' then (False, r')
                                           else (False, r1));
                 ed = takeWhile isDigit r2
             in if ed = [] then 0
                else if neg then - int (read_nat ed) else int (read_nat ed))
          else 0)"

definition parse_unsigned :: "string \<Rightarrow> number option" where
  "parse_unsigned u =
     (let ip = takeWhile isDigit u;
          r1 = dropWhile isDigit u;
          (fp, r2) = (case r1 of
                        [] \<Rightarrow> ([], r1)
                      | d # r' \<Rightarrow> if d = CHR ''.'' then (takeWhile isDigit r', dropWhile isDigit r')
                                  else ([], r1))
      in if ip = [] \<and> fp = [] then None
         else Some (fl (of_nat (read_nat (ip @ fp)) / 10 ^ length fp * pow10 (parse_exponent r2))))"

definition parseFloat_str :: "string \<Rightarrow> number" where
  "parseFloat_str s =
     (let t = dropWhile isSpace s;
          (neg, u) = (case t of
                        [] \<Rightarrow> (False, t)
                      | sg # r \<Rightarrow> if sg = CHR ''-'' then (True, r)
                                  else if sg = CHR ''+'' then (False, r)
                                  else (False, t))
      in if startsWith u ''Infinity'' then (if neg then NegInfinity else PosInfinity)
         else (case parse_unsigned u of
                 None \<Rightarrow> NaN
               | Some v \<Rightarrow> if neg then num_neg v else v))"

definition parseFloat :: "string option \<Rightarrow> number" where
  "parseFloat a = (case a of None \<Rightarrow> NaN | Some s \<Rightarrow> parseFloat_str s)"

text \<open>
  \<^verbatim>\<open>x.toFixed(d)\<close> for a finite \<open>x\<close>: the integer \<open>n\<close> with \<open>n / 10^d\<close> nearest to \<open>|x|\<close>, the
  larger one on a tie, written with \<open>d\<close> digits after the point. From \<open>10^21\<close> on the
  host language prints the number as it prints any number, which is the parameter
  \<open>numToString\<close>.
\<close>

definition round_scaled :: "nat \<Rightarrow> rat \<Rightarrow> nat" where
  "round_scaled d y = nat \<lfloor>y * 10 ^ d + 1 / 2\<rfloor>"

definition fixed_digits :: "nat \<Rightarrow> nat \<Rightarrow> string" where
  "fixed_digits d n =
     (let m = show_nat n;
          m' = (if length m \<le> d then replicate (d + 1 - length m) (CHR ''0'') @ m else m)
      in if d = 0 then m'
         else take (length m' - d) m' @ ''.'' @ drop (length m' - d) m')"

definition toFixed :: "(rat \<Rightarrow> string) \<Rightarrow> nat \<Rightarrow> rat \<Rightarrow> string" where
  "toFixed numToString d x =
     (if x < 0 then ''-'' else '''') @
     (if 10 ^ 21 \<le> \<bar>x\<bar> then numToString \<bar>x\<bar> else fixed_digits d (round_scaled d \<bar>x\<bar>))"

text \<open>The number a \<^verbatim>\<open>toFixed\<close> text denotes, for the non-negative arguments below \<open>10^21\<close>.\<close>

definition toFixed_value :: "nat \<Rightarrow> rat \<Rightarrow> rat" where
  "toFixed_value d x = of_nat (round_scaled d x) / 10 ^ d"

text \<open>
  \<^verbatim>\<open>toFixed\<close> of a number that need not be finite, \<^verbatim>\<open>Math.max(0, x)\<close>, and the difference and
  the product of two finite doubles.
\<close>

definition toFixed_num :: "(rat \<Rightarrow> string) \<Rightarrow> nat \<Rightarrow> number \<Rightarrow> string" where
  "toFixed_num numToString d x =
     (case x of
        NaN \<Rightarrow> ''NaN''
      | Num q \<Rightarrow> toFixed numToString d q
      | PosInfinity \<Rightarrow> ''Infinity''
      | NegInfinity \<Rightarrow> ''-Infinity'')"

fun num_max0 :: "number \<Rightarrow> number" where
  "num_max0 NaN = NaN"
| "num_max0 (Num q) = Num (max 0 q)"
| "num_max0 PosInfinity = PosInfinity"
| "num_max0 NegInfinity = Num 0"

definition num_sub :: "rat \<Rightarrow> rat \<Rightarrow> number" where
  "num_sub a b = fl (a - b)"

definition num_mul :: "rat \<Rightarrow> rat \<Rightarrow> number" where
  "num_mul a b = fl (a * b)"

section \<open>Regular expressions\<close>

text \<open>
  The patterns of the program use literals, the classes \<^verbatim>\<open>\d \w \s .\<close>, sequence,
  alternation, optional parts, repetition of a single class (greedy, and lazy in
  \<^verbatim>\<open>.+?\<close>), capture groups and the anchors; every pattern carries the \<^verbatim>\<open>i\<close> flag, so a
  literal is compared up to case; the literals of the patterns are ASCII.

  The matcher returns every way of matching a pattern at the front of a string, in the
  order in which a backtracking engine tries them: the head of the list is the match the
  engine reports. \<open>rx_match\<close> is \<^verbatim>\<open>s.match(r)\<close> without the \<^verbatim>\<open>g\<close> flag: the leftmost start
  position that admits a match wins.
\<close>

datatype cls = Digit | Word | Space | Dot

fun in_cls :: "cls \<Rightarrow> char \<Rightarrow> bool" where
  "in_cls Digit c = isDigit c"
| "in_cls Word c = isWordChar c"
| "in_cls Space c = isSpace c"
| "in_cls Dot c = (\<not> isLineTerminator c)"

datatype rx =
    Lit string
  | Cls cls
  | Seq rx rx
  | Alt rx rx
  | Opt rx
  | Star cls
  | Plus cls
  | LazyPlus cls
  | Grp nat rx
  | Bol
  | Eol

type_synonym caps = "(nat \<times> string) list"

fun strip_ci :: "string \<Rightarrow> string \<Rightarrow> string option" where
  "strip_ci [] s = Some s"
| "strip_ci (x # xs) [] = None"
| "strip_ci (x # xs) (y # ys) =
     (if toLowerChar x = toLowerChar y then strip_ci xs ys else None)"

fun rep_greedy :: "(char \<Rightarrow> bool) \<Rightarrow> string \<Rightarrow> string list" where
  "rep_greedy P [] = [[]]"
| "rep_greedy P (x # xs) = (if P x then rep_greedy P xs @ [x # xs] else [x # xs])"

fun rep_lazy :: "(char \<Rightarrow> bool) \<Rightarrow> string \<Rightarrow> string list" where
  "rep_lazy P [] = [[]]"
| "rep_lazy P (x # xs) = (x # xs) # (if P x then rep_lazy P xs else [])"

fun ms :: "nat \<Rightarrow> rx \<Rightarrow> string \<Rightarrow> caps \<Rightarrow> (string \<times> caps) list" where
  "ms n (Lit w) s c = (case strip_ci w s of None \<Rightarrow> [] | Some s' \<Rightarrow> [(s', c)])"
| "ms n (Cls k) s c = (case s of [] \<Rightarrow> [] | x # xs \<Rightarrow> if in_cls k x then [(xs, c)] else [])"
| "ms n (Seq a b) s c = concat (map (\<lambda>(s', c'). ms n b s' c') (ms n a s c))"
| "ms n (Alt a b) s c = ms n a s c @ ms n b s c"
| "ms n (Opt a) s c = ms n a s c @ [(s, c)]"
| "ms n (Star k) s c = map (\<lambda>s'. (s', c)) (rep_greedy (in_cls k) s)"
| "ms n (Plus k) s c =
     (case s of
        [] \<Rightarrow> []
      | x # xs \<Rightarrow> if in_cls k x then map (\<lambda>s'. (s', c)) (rep_greedy (in_cls k) xs) else [])"
| "ms n (LazyPlus k) s c =
     (case s of
        [] \<Rightarrow> []
      | x # xs \<Rightarrow> if in_cls k x then map (\<lambda>s'. (s', c)) (rep_lazy (in_cls k) xs) else [])"
| "ms n (Grp i a) s c =
     map (\<lambda>(s', c'). (s', (i, take (length s - length s') s) # c')) (ms n a s c)"
| "ms n Bol s c = (if length s = n then [(s, c)] else [])"
| "ms n Eol s c = (if s = [] then [(s, c)] else [])"

text \<open>
  A match: the searched string, the matched text (\<^verbatim>\<open>match[0]\<close>) and the captures.
  \<open>grp m i\<close> is \<^verbatim>\<open>match[i]\<close>, \<open>None\<close> for \<^verbatim>\<open>undefined\<close>.
\<close>

record rmatch =
  input :: string
  index :: nat
  whole :: string
  groups :: caps

definition grp :: "rmatch \<Rightarrow> nat \<Rightarrow> string option" where
  "grp m i = (if i = 0 then Some (whole m) else map_of (groups m) i)"

fun search_from :: "string \<Rightarrow> rx \<Rightarrow> string \<Rightarrow> rmatch option" where
  "search_from inp r s =
     (case ms (length inp) r s [] of
        (s', c) # _ \<Rightarrow>
          Some \<lparr>input = inp, index = length inp - length s,
                whole = take (length s - length s') s, groups = c\<rparr>
      | [] \<Rightarrow> (case s of [] \<Rightarrow> None | _ # t \<Rightarrow> search_from inp r t))"

definition rx_match :: "string \<Rightarrow> rx \<Rightarrow> rmatch option" where
  "rx_match s r = search_from s r s"

fun seqs :: "rx list \<Rightarrow> rx" where
  "seqs [] = Lit []"
| "seqs [r] = r"
| "seqs (r # rs) = Seq r (seqs rs)"

fun alts :: "string list \<Rightarrow> rx" where
  "alts [] = Lit []"
| "alts [w] = Lit w"
| "alts (w # ws) = Alt (Lit w) (alts ws)"

fun alt_list :: "rx list \<Rightarrow> rx" where
  "alt_list [] = Lit []"
| "alt_list [r] = r"
| "alt_list (r # rs) = Alt r (alt_list rs)"

text \<open>\<^verbatim>\<open>\d+\.?\d*\<close>, \<^verbatim>\<open>\s+\<close> and \<^verbatim>\<open>\w+\<close>.\<close>

definition rx_number :: rx where
  "rx_number = seqs [Plus Digit, Opt (Lit ''.''), Star Digit]"

abbreviation sp :: rx where "sp \<equiv> Plus Space"
abbreviation wd :: rx where "wd \<equiv> Plus Word"

section \<open>Requests, responses and the collaborators\<close>

datatype error = TypeError | CollaboratorError

text \<open>
  The request context. \<open>originalPrompt\<close> is the field the router adds for the fast path;
  \<open>expertiseLevel\<close> is read by the market analysis handler.
\<close>

record request_context =
  walletConnected :: bool
  walletAddress :: "string option"
  balance :: rat
  tokenBalances :: "(string \<times> rat) list"
  expertiseLevel :: "string option"
  originalPrompt :: "string option"

text \<open>The intent payloads, one constructor for each \<^verbatim>\<open>action\<close> tag.\<close>

datatype intent =
    SwapIntent "string option" number
  | BalanceIntent "string option"
  | TokenInfoIntent string
  | PriceIntent "string option"
  | HistoryIntent bool
  | MarketTrendsIntent
  | HelpIntent
  | TransferIntent string number string
  | CryptoKnowledgeIntent string
  | MarketAnalysisIntent string
  | InvestmentEducationIntent string

fun action :: "intent \<Rightarrow> string" where
  "action (SwapIntent t p) = ''swap''"
| "action (BalanceIntent a) = ''balance''"
| "action (TokenInfoIntent t) = ''tokenInfo''"
| "action (PriceIntent t) = ''price''"
| "action (HistoryIntent b) = ''history''"
| "action MarketTrendsIntent = ''marketTrends''"
| "action HelpIntent = ''help''"
| "action (TransferIntent r a t) = ''transfer''"
| "action (CryptoKnowledgeIntent t) = ''crypto_knowledge''"
| "action (MarketAnalysisIntent l) = ''marketAnalysis''"
| "action (InvestmentEducationIntent t) = ''investment_education''"

text \<open>
  A response: \<open>intent = None\<close> is \<^verbatim>\<open>null\<close> (or no intent at all), \<open>suggestions = None\<close> a
  response without the field.
\<close>

record response =
  message :: string
  intent :: "intent option"
  suggestions :: "string list option"

text \<open>
  What the program takes from outside its own sources: the address detector, the price
  service, the clock, the random draws (the \<open>k\<close>-th draw of one call), the printing of a
  number, the body of the history handler (the transaction history service) and the
  knowledge service. A collaborator that can raise returns a sum, \<open>Inl\<close> for the
  exception.
\<close>

record env =
  detectSolanaAddress :: "string \<Rightarrow> error + string option"
  fetchTokenPrice :: "string \<Rightarrow> error + rat option"
  dateNow :: int
  mathRandom :: "nat \<Rightarrow> rat"
  numToString :: "rat \<Rightarrow> string"
  historyLookup :: "string \<Rightarrow> string option \<Rightarrow> error + string \<times> bool"
  getMarketAnalysis :: "string \<Rightarrow> error + unit"

definition showNumber :: "env \<Rightarrow> number \<Rightarrow> string" where
  "showNumber e x =
     (case x of
        NaN \<Rightarrow> ''NaN''
      | Num q \<Rightarrow> numToString e q
      | PosInfinity \<Rightarrow> ''Infinity''
      | NegInfinity \<Rightarrow> ''-Infinity'')"

section \<open>The transfer handler\<close>

text \<open>The literal \<^verbatim>\<open>0.000005\<close>.\<close>

definition transactionFee :: rat where
  "transactionFee = nearest (5 / 1000000)"

text \<open>\<^verbatim>\<open>!recipient\<close>: \<^verbatim>\<open>null\<close> and the empty string are both falsy.\<close>

definition falsy_str :: "string option \<Rightarrow> bool" where
  "falsy_str r = (case r of None \<Rightarrow> True | Some s \<Rightarrow> s = [])"

text \<open>\<^verbatim>\<open>context.originalPrompt || match.input || ""\<close>.\<close>

definition fullMessage :: "rmatch \<Rightarrow> request_context \<Rightarrow> string" where
  "fullMessage m ctx =
     (if falsy_str (originalPrompt ctx) then input m else the (originalPrompt ctx))"

text \<open>
  \<^verbatim>\<open>isNaN(x) || x <= 0\<close>, \<^verbatim>\<open>x > b\<close> and \<^verbatim>\<open>x + fee\<close> for a parsed amount; the sum is a double.
\<close>

fun not_positive :: "number \<Rightarrow> bool" where
  "not_positive NaN = True"
| "not_positive (Num q) = (q \<le> 0)"
| "not_positive PosInfinity = False"
| "not_positive NegInfinity = True"

fun num_greater :: "number \<Rightarrow> rat \<Rightarrow> bool" where
  "num_greater NaN b = False"
| "num_greater (Num q) b = (q > b)"
| "num_greater PosInfinity b = True"
| "num_greater NegInfinity b = False"

fun num_add :: "number \<Rightarrow> rat \<Rightarrow> number" where
  "num_add NaN b = NaN"
| "num_add (Num q) b = fl (q + b)"
| "num_add PosInfinity b = PosInfinity"
| "num_add NegInfinity b = NegInfinity"

definition connect_wallet_response :: response where
  "connect_wallet_response =
     \<lparr>message = ''Please connect your wallet first to make a transfer.'',
      intent = None,
      suggestions = Some [''How do I connect my wallet?'', ''What is a wallet?'']\<rparr>"

definition no_address_response :: response where
  "no_address_response =
     \<lparr>message = ''I couldn't find a valid Solana wallet address in your message. Please provide a complete Solana address.'',
      intent = None,
      suggestions = Some [''What does a Solana address look like?'',
                          ''How do I copy a wallet address?'']\<rparr>"

definition invalid_amount_response :: response where
  "invalid_amount_response =
     \<lparr>message = ''The amount to transfer must be a positive number.'',
      intent = None,
      suggestions = Some [''Send 0.001 SOL'', ''How much SOL should I transfer?'']\<rparr>"

definition insufficient_balance_response :: "env \<Rightarrow> request_context \<Rightarrow> number \<Rightarrow> response" where
  "insufficient_balance_response e ctx a =
     \<lparr>message = ''You don't have enough SOL for this transfer. Your current balance is ''
                 @ toFixed (numToString e) 4 (balance ctx) @ '' SOL, but you're trying to send ''
                 @ showNumber e a @ '' SOL.'',
      intent = None,
      suggestions = Some [''Check my balance'', ''How do I get more SOL?'']\<rparr>"

definition insufficient_for_fees_response :: "env \<Rightarrow> request_context \<Rightarrow> number \<Rightarrow> response" where
  "insufficient_for_fees_response e ctx a =
     \<lparr>message = ''You need to keep some SOL for transaction fees. Your balance is ''
                 @ toFixed (numToString e) 4 (balance ctx)
                 @ '' SOL, and this transaction requires ''
                 @ showNumber e (num_add a transactionFee) @ '' SOL (including fees).'',
      intent = None,
      suggestions = Some [''Send '' @ toFixed_num (numToString e) 4
                                        (num_max0 (num_sub (balance ctx) transactionFee))
                            @ '' SOL'',
                          ''Check my balance'']\<rparr>"

definition insufficient_fee_balance_response :: "env \<Rightarrow> request_context \<Rightarrow> response" where
  "insufficient_fee_balance_response e ctx =
     \<lparr>message = ''You don't have enough SOL to cover the transaction fee. Your current SOL balance is ''
                 @ toFixed (numToString e) 6 (balance ctx) @ '' SOL, but you need at least ''
                 @ numToString e transactionFee @ '' SOL for fees.'',
      intent = None,
      suggestions = Some [''Check my balance'', ''How do I get more SOL?'']\<rparr>"

definition confirm_transfer_response :: "env \<Rightarrow> string \<Rightarrow> number \<Rightarrow> string \<Rightarrow> response" where
  "confirm_transfer_response e recipient a token =
     \<lparr>message = ''I'll help you send '' @ showNumber e a @ '' '' @ token @ '' to ''
                 @ slice_first 4 recipient @ ''...'' @ slice_last 4 recipient
                 @ ''. Please confirm this transaction.'',
      intent = Some (TransferIntent recipient a token),
      suggestions = Some [''Confirm'', ''Cancel'', ''Check my balance'']\<rparr>"

definition transfer_handler :: "env \<Rightarrow> rmatch \<Rightarrow> request_context \<Rightarrow> error + response" where
  "transfer_handler e m ctx =
     (if \<not> walletConnected ctx then Inr connect_wallet_response
      else
        let amount = grp m 1 in
        case grp m 2 of
          None \<Rightarrow> Inl TypeError
        | Some t \<Rightarrow>
            let token = toUpperCase t in
            case detectSolanaAddress e (fullMessage m ctx) of
              Inl err \<Rightarrow> Inl err
            | Inr recipient \<Rightarrow>
                if falsy_str recipient then Inr no_address_response
                else
                  let numericAmount = parseFloat amount in
                  if not_positive numericAmount then Inr invalid_amount_response
                  else if token = ''SOL'' then
                    (if num_greater numericAmount (balance ctx)
                     then Inr (insufficient_balance_response e ctx numericAmount)
                     else if num_greater (num_add numericAmount transactionFee) (balance ctx)
                     then Inr (insufficient_for_fees_response e ctx numericAmount)
                     else Inr (confirm_transfer_response e (the recipient) numericAmount token))
                  else
                    (if balance ctx < transactionFee
                     then Inr (insufficient_fee_balance_response e ctx)
                     else Inr (confirm_transfer_response e (the recipient) numericAmount token)))"

section \<open>The conversation memory\<close>

record user_preferences =
  favoriteTokens :: "string list"
  swapHistory :: "(string \<times> string \<times> string) list"
  preferredActions :: "string list"
  interactionStyle :: string

record conversation_context =
  recentTopics :: "string list"
  recentTokens :: "string list"
  userPreferences :: user_preferences
  sessionStartTime :: int
  suggestedNextActions :: "string list"

text \<open>The value the module starts with; the session start time is the clock at load.\<close>

definition initial_conversationContext :: "int \<Rightarrow> conversation_context" where
  "initial_conversationContext t0 =
     \<lparr>recentTopics = [], recentTokens = [],
      userPreferences = \<lparr>favoriteTokens = [], swapHistory = [], preferredActions = [],
                         interactionStyle = ''neutral''\<rparr>,
      sessionStartTime = t0, suggestedNextActions = []\<rparr>"

text \<open>\<^verbatim>\<open>xs.unshift(x); if (xs.length > cap) xs.pop()\<close>.\<close>

definition unshift_capped :: "nat \<Rightarrow> string \<Rightarrow> string list \<Rightarrow> string list" where
  "unshift_capped cap x xs = (let ys = x # xs in if length ys > cap then butlast ys else ys)"

text \<open>\<^verbatim>\<open>xs[0]\<close>, \<open>None\<close> for \<^verbatim>\<open>undefined\<close>.\<close>

definition first_elem :: "string list \<Rightarrow> string option" where
  "first_elem xs = (case xs of [] \<Rightarrow> None | x # _ \<Rightarrow> Some x)"

definition generateSuggestions :: "conversation_context \<Rightarrow> conversation_context" where
  "generateSuggestions cc =
     (let top = first_elem (recentTopics cc);
          tok = first_elem (recentTokens cc);
          fav = first_elem (favoriteTokens (userPreferences cc));
          s1 = (if top = Some ''balance''
                then [''Swap 1 SOL to USDC'', ''Show my transaction history''] else []);
          s2 = s1 @ (if top = Some ''tokenInfo'' \<and> \<not> falsy_str tok
                     then [if the tok \<noteq> ''SOL'' then ''Swap 10 '' @ the tok @ '' to SOL''
                           else ''Swap 1 SOL to '' @ (if falsy_str fav then ''USDC'' else the fav),
                           ''What are the market trends?'']
                     else []);
          s3 = s2 @ (if top = Some ''marketTrends''
                     then [''Tell me about '' @ (if falsy_str tok then ''JUP'' else the tok),
                           ''Check my balance'']
                     else []);
          s4 = s3 @ (if top = Some ''history''
                     then [''Check my balance'', ''What are the market trends?''] else []);
          s5 = s4 @ (if top = Some ''swap''
                     then [''Check my balance'', ''Show my transaction history''] else []);
          s6 = (if s5 = []
                then [''What tokens do you support?'', ''Check my balance'',
                      ''What are the market trends?'']
                else s5)
      in cc\<lparr>suggestedNextActions := take 3 s6\<rparr>)"

definition record_topic :: "string \<Rightarrow> conversation_context \<Rightarrow> conversation_context" where
  "record_topic opn cc =
     (let cc1 = cc\<lparr>recentTopics := unshift_capped 8 opn (recentTopics cc)\<rparr>;
          up = userPreferences cc1
      in if opn \<notin> set (preferredActions up)
         then cc1\<lparr>userPreferences := up\<lparr>preferredActions := unshift_capped 3 opn (preferredActions up)\<rparr>\<rparr>
         else cc1)"

definition record_token :: "conversation_context \<Rightarrow> string \<Rightarrow> conversation_context" where
  "record_token cc token =
     (let cc1 = cc\<lparr>recentTokens := unshift_capped 10 token (recentTokens cc)\<rparr>;
          up = userPreferences cc1
      in if token \<notin> set (favoriteTokens up)
         then cc1\<lparr>userPreferences := up\<lparr>favoriteTokens := unshift_capped 5 token (favoriteTokens up)\<rparr>\<rparr>
         else cc1)"

definition technicalTerms :: "string list" where
  "technicalTerms = [''tvl'', ''liquidity'', ''amm'', ''slippage'', ''liquidity pool'', ''apy'', ''yield'']"

definition casualTerms :: "string list" where
  "casualTerms = [''moon'', ''dump'', ''pump'', ''wen'', ''lambo'', ''fomo'', ''yolo'']"

definition infer_style :: "string \<Rightarrow> conversation_context \<Rightarrow> conversation_context" where
  "infer_style userInput cc =
     (let lowerInput = toLowerCase userInput;
          hasTechnical = list_ex (includes_str lowerInput) technicalTerms;
          hasCasual = list_ex (includes_str lowerInput) casualTerms;
          up = userPreferences cc
      in if hasTechnical \<and> \<not> hasCasual
         then cc\<lparr>userPreferences := up\<lparr>interactionStyle := ''technical''\<rparr>\<rparr>
         else if hasCasual \<and> \<not> hasTechnical
         then cc\<lparr>userPreferences := up\<lparr>interactionStyle := ''casual''\<rparr>\<rparr>
         else cc)"

text \<open>
  \<open>matchedOperation\<close> is a string or \<^verbatim>\<open>null\<close>; \<^verbatim>\<open>if (matchedOperation)\<close> holds for a
  non-empty string.
\<close>

definition updateConversationContext ::
  "string \<Rightarrow> string option \<Rightarrow> string list \<Rightarrow> conversation_context \<Rightarrow> conversation_context" where
  "updateConversationContext userInput matchedOperation tokensMentioned cc =
     (let cc1 = (if falsy_str matchedOperation then cc else record_topic (the matchedOperation) cc);
          cc2 = foldl record_token cc1 tokensMentioned
      in generateSuggestions (infer_style userInput cc2))"

text \<open>A sequence of calls, each with its input, matched operation and mentioned tokens.\<close>

fun update_all ::
  "(string \<times> string option \<times> string list) list \<Rightarrow> conversation_context \<Rightarrow> conversation_context" where
  "update_all [] cc = cc"
| "update_all ((u, opn, toks) # calls) cc = update_all calls (updateConversationContext u opn toks cc)"

definition within_caps :: "conversation_context \<Rightarrow> bool" where
  "within_caps cc =
     (length (recentTopics cc) \<le> 8 \<and> length (recentTokens cc) \<le> 10 \<and>
      length (preferredActions (userPreferences cc)) \<le> 3 \<and>
      length (favoriteTokens (userPreferences cc)) \<le> 5)"

text \<open>The tokens a sequence of calls inserts, in the order of insertion.\<close>

definition inserted_tokens :: "(string \<times> string option \<times> string list) list \<Rightarrow> string list" where
  "inserted_tokens calls = concat (map (\<lambda>(u, opn, toks). toks) calls)"

section \<open>The token registry\<close>

record token_info =
  name :: string
  decimals :: nat
  description :: string
  useCases :: string
  price_range :: string
  trend_indicators :: "string list"
  category :: string
  year_launched :: nat
  market_sentiment :: string
  issuer :: string

definition TOKEN_INFO :: "(string \<times> token_info) list" where
  "TOKEN_INFO =
   [(''SOL'', \<lparr>name = ''Solana'', decimals = 9,
      description = ''Native token of the Solana blockchain, known for high throughput and low fees'',
      useCases = ''Transaction fees, staking, governance, DeFi collateral'',
      price_range = ''$20-$100 historically'',
      trend_indicators = [''Ecosystem growth'', ''Developer activity'', ''DeFi TVL''],
      category = ''L1 blockchain'', year_launched = 2020,
      market_sentiment = ''Bullish after 2023 recovery'', issuer = ''Solana Foundation''\<rparr>),
    (''USDC'', \<lparr>name = ''USD Coin'', decimals = 6,
      description = ''A regulated stablecoin pegged to the US dollar issued by Circle'',
      useCases = ''Store of value, trading pairs, cross-border payments, yield farming'',
      price_range = ''~$1.00 (stablecoin)'',
      trend_indicators = [''Regulatory compliance'', ''Corporate adoption''],
      category = ''Stablecoin'', year_launched = 2018,
      market_sentiment = ''Stable'', issuer = ''Circle''\<rparr>),
    (''USDT'', \<lparr>name = ''Tether'', decimals = 6,
      description = ''The largest stablecoin by market cap, pegged to the US dollar'',
      useCases = ''Trading pairs, store of value, global payments'',
      price_range = ''~$1.00 (stablecoin)'',
      trend_indicators = [''Exchange reserves'', ''Regulatory scrutiny''],
      category = ''Stablecoin'', year_launched = 2014,
      market_sentiment = ''Stable'', issuer = ''Tether Limited''\<rparr>),
    (''BONK'', \<lparr>name = ''Bonk'', decimals = 5,
      description = ''A community-focused Solana meme coin with the Shiba Inu dog mascot'',
      useCases = ''Community engagement, tipping, NFT purchases on Solana'',
      price_range = ''High volatility meme token'',
      trend_indicators = [''Social media mentions'', ''Community engagement'', ''Whale movements''],
      category = ''Meme coin'', year_launched = 2022,
      market_sentiment = ''Cyclical hype patterns'', issuer = ''Bonk Community''\<rparr>),
    (''JUP'', \<lparr>name = ''Jupiter'', decimals = 6,
      description = ''Governance token for Jupiter, Solana's leading DEX aggregator'',
      useCases = ''Governance, fee sharing, liquidity provision incentives'',
      price_range = ''Trending upward since 2024 launch'',
      trend_indicators = [''Trading volume'', ''TVL growth'', ''Protocol revenue''],
      category = ''DEX token'', year_launched = 2024,
      market_sentiment = ''Strong as leading Solana DEX'', issuer = ''Jupiter Community''\<rparr>),
    (''JTO'', \<lparr>name = ''Jito'', decimals = 9,
      description = ''Governance token for Jito's MEV infrastructure on Solana'',
      useCases = ''Governance, staking, revenue sharing'',
      price_range = ''Stable with growth potential'',
      trend_indicators = [''Validator adoption'', ''Solana block production stats''],
      category = ''Infrastructure token'', year_launched = 2023,
      market_sentiment = ''Technical adoption focus'', issuer = ''Jito Network''\<rparr>),
    (''RAY'', \<lparr>name = ''Raydium'', decimals = 6,
      description = ''AMM and liquidity provider on Solana with concentrated liquidity features'',
      useCases = ''Trading, liquidity provision, yield farming'',
      price_range = ''DeFi token with moderate volatility'',
      trend_indicators = [''TVL'', ''Trading fees generated'', ''New pool launches''],
      category = ''DEX token'', year_launched = 2021,
      market_sentiment = ''Recovering alongside Solana DeFi ecosystem'',
      issuer = ''Raydium Community''\<rparr>),
    (''PYTH'', \<lparr>name = ''Pyth Network'', decimals = 6,
      description = ''Oracle protocol providing real-time market data across blockchains'',
      useCases = ''Governance, staking for data validation'',
      price_range = ''Varies with market conditions'',
      trend_indicators = [''Growing adoption'', ''Strong community''],
      category = ''Oracle token'', year_launched = 2023,
      market_sentiment = ''Positive'', issuer = ''Pyth Network''\<rparr>),
    (''MEME'', \<lparr>name = ''Memecoin'', decimals = 6,
      description = ''Multi-chain meme token focused on internet culture and humor'',
      useCases = ''Community engagement, memetic value'',
      price_range = ''Highly volatile, follows meme cycles'',
      trend_indicators = [''Social media virality'', ''Celebrity mentions'', ''New exchange listings''],
      category = ''Meme coin'', year_launched = 2023,
      market_sentiment = ''Follows broader meme coin trends'', issuer = ''Memecoin Community''\<rparr>),
    (''WIF'', \<lparr>name = ''Dogwifhat'', decimals = 6,
      description = ''Solana meme coin featuring a dog wearing a pink hat, went viral in 2023'',
      useCases = ''Community status, NFT integration'',
      price_range = ''Extremely volatile, reached major peaks in 2023-2024'',
      trend_indicators = [''Twitter mentions'', ''Influencer activity'', ''New listings''],
      category = ''Meme coin'', year_launched = 2023,
      market_sentiment = ''One of Solana's most successful meme coins'',
      issuer = ''Dogwifhat Community''\<rparr>),
    (''AKT'', \<lparr>name = ''Akash Network Token'', decimals = 6,
      description = ''Decentralized cloud computing token'',
      useCases = ''Decentralized cloud computing'',
      price_range = ''Varies with market conditions'',
      trend_indicators = [''Growing adoption'', ''Strong community''],
      category = ''Infrastructure'', year_launched = 2020,
      market_sentiment = ''Positive'', issuer = ''Akash Network''\<rparr>)]"

section \<open>The module state\<close>

record token_price_data =
  price :: rat
  timestamp :: int

record globals =
  conversationContext :: conversation_context
  cachedTokenPrices :: "string \<Rightarrow> token_price_data option"

definition initial_globals :: "int \<Rightarrow> globals" where
  "initial_globals t0 =
     \<lparr>conversationContext = initial_conversationContext t0, cachedTokenPrices = (\<lambda>k. None)\<rparr>"

text \<open>
  The price of a token, from the cache while its entry is younger than 60 seconds and
  from the price service otherwise. A fetched price is cached when it is truthy (a
  non-zero number), and only a truthy price is shown. The whole lookup sits in a \<^verbatim>\<open>try\<close>
  whose \<^verbatim>\<open>catch\<close> only logs, so a failing service leaves no price.
\<close>

definition truthy_price :: "rat option \<Rightarrow> bool" where
  "truthy_price p = (case p of None \<Rightarrow> False | Some v \<Rightarrow> v \<noteq> 0)"

definition lookup_price :: "env \<Rightarrow> globals \<Rightarrow> string \<Rightarrow> rat option \<times> globals" where
  "lookup_price e g symbol =
     (let now = dateNow e;
          isCacheValid = (case cachedTokenPrices g symbol of
                            None \<Rightarrow> False
                          | Some d \<Rightarrow> now - timestamp d < 60000)
      in if \<not> isCacheValid then
           (case fetchTokenPrice e symbol of
              Inl err \<Rightarrow> (None, g)
            | Inr p \<Rightarrow>
                if truthy_price p
                then (p, g\<lparr>cachedTokenPrices :=
                             (cachedTokenPrices g)(symbol := Some \<lparr>price = the p, timestamp = now\<rparr>)\<rparr>)
                else (None, g))
         else
           (let p = Some (price (the (cachedTokenPrices g symbol)))
            in if truthy_price p then (p, g) else (None, g)))"

section \<open>The handlers\<close>

type_synonym handler_fn =
  "env \<Rightarrow> globals \<Rightarrow> rmatch \<Rightarrow> request_context \<Rightarrow> (error + response) \<times> globals"

text \<open>\<^verbatim>\<open>context.walletAddress?.slice(0, 4)\<close> inside a template: the text \<^verbatim>\<open>undefined\<close> for no address.\<close>

definition short_address :: "string option \<Rightarrow> string" where
  "short_address a =
     (case a of
        None \<Rightarrow> ''undefined...undefined''
      | Some s \<Rightarrow> slice_first 4 s @ ''...'' @ slice_last 4 s)"

definition swap_handler :: handler_fn where
  "swap_handler e g m ctx =
     (Inr \<lparr>message = ''Swap operation initiated'',
           intent = Some (SwapIntent (grp m 2) (parseFloat (grp m 1))),
           suggestions = None\<rparr>, g)"

text \<open>The sign before the dollar value is U+2248, here in its UTF-8 bytes.\<close>

definition balance_handler :: handler_fn where
  "balance_handler e g m ctx =
     (if \<not> walletConnected ctx then
        (Inr \<lparr>message = ''Please connect your wallet first to check your balance.'',
              intent = None, suggestions = None\<rparr>, g)
      else
        let (solPrice, g') = lookup_price e g ''SOL'';
            priceInfo = (case solPrice of
                           None \<Rightarrow> []
                         | Some p \<Rightarrow> '' ('' @ [CHR 0xE2, CHR 0x89, CHR 0x88] @ ''$''
                                      @ toFixed_num (numToString e) 2 (num_mul (balance ctx) p)
                                      @ '')'')
        in (Inr \<lparr>message = ''Your current wallet balance is ''
                     @ toFixed (numToString e) 4 (balance ctx) @ '' SOL'' @ priceInfo
                     @ '' ('' @ short_address (walletAddress ctx)
                     @ ''). You can use this balance to swap tokens or perform other operations.'',
                 intent = Some (BalanceIntent (walletAddress ctx)),
                 suggestions = None\<rparr>, g'))"

definition tokenInfo_handler :: handler_fn where
  "tokenInfo_handler e g m ctx =
     (case grp m 1 of
        None \<Rightarrow> (Inl TypeError, g)
      | Some t \<Rightarrow>
          let tokenSymbol = toUpperCase t in
          case map_of TOKEN_INFO tokenSymbol of
            None \<Rightarrow>
              (Inr \<lparr>message = ''I don't have information about '' @ t
                       @ ''. Currently I have data on: '' @ join '', '' (map fst TOKEN_INFO),
                    intent = None, suggestions = None\<rparr>, g)
          | Some tokenInfo \<Rightarrow>
              let (tokenPrice, g') = lookup_price e g tokenSymbol;
                  priceInfo = (case tokenPrice of
                                 None \<Rightarrow> []
                               | Some p \<Rightarrow> ''\<newline>\<newline>Current price: $''
                                    @ toFixed (numToString e)
                                        (if tokenSymbol = ''BONK'' \<or> tokenSymbol = ''WIF'' then 8 else 2) p);
                  m1 = tokenSymbol @ '' ('' @ name tokenInfo @ ''): '' @ description tokenInfo
                       @ ''. It has '' @ show_nat (decimals tokenInfo)
                       @ '' decimals and is commonly used for '' @ useCases tokenInfo @ ''.'';
                  m2 = m1 @ ''\<newline>\<newline>Category: '' @ category tokenInfo;
                  m3 = (if year_launched tokenInfo \<noteq> 0
                        then m2 @ '', Launched: '' @ show_nat (year_launched tokenInfo) else m2);
                  m4 = m3 @ ''\<newline>Price history: '' @ price_range tokenInfo;
                  m5 = (if market_sentiment tokenInfo \<noteq> []
                        then m4 @ ''\<newline>Market sentiment: '' @ market_sentiment tokenInfo else m4);
                  m6 = m5 @ priceInfo;
                  m7 = (if trend_indicators tokenInfo \<noteq> []
                        then m6 @ ''\<newline>\<newline>Key trend indicators: ''
                                @ join '', '' (trend_indicators tokenInfo)
                        else m6)
              in (Inr \<lparr>message = m7, intent = Some (TokenInfoIntent tokenSymbol),
                       suggestions = None\<rparr>, g'))"

definition price_handler :: handler_fn where
  "price_handler e g m ctx =
     (Inr \<lparr>message = ''Fetching price information'',
           intent = Some (PriceIntent (grp m 1)), suggestions = None\<rparr>, g)"

text \<open>
  The history handler. After the wallet check its body queries the transaction history
  service, which is outside these sources: \<open>historyLookup\<close> stands for that body and
  gives the message and the success flag of the intent, or the exception that the
  handler's own \<^verbatim>\<open>catch\<close> turns into the error reply. The transaction list of the intent
  is not part of the model.
\<close>

definition history_handler :: handler_fn where
  "history_handler e g m ctx =
     (if \<not> walletConnected ctx then
        (Inr \<lparr>message = ''Please connect your wallet first to view your transaction history.'',
              intent = None, suggestions = None\<rparr>, g)
      else
        case historyLookup e (input m) (walletAddress ctx) of
          Inl err \<Rightarrow>
            (Inr \<lparr>message = ''I encountered an error while trying to fetch your transaction history. Please try again later.'',
                  intent = Some (HistoryIntent False), suggestions = None\<rparr>, g)
        | Inr (msg, ok) \<Rightarrow>
            (Inr \<lparr>message = msg, intent = Some (HistoryIntent ok), suggestions = None\<rparr>, g))"

definition marketTrends_handler :: handler_fn where
  "marketTrends_handler e g m ctx =
     (Inr \<lparr>message = ''\<newline>## Current Market Trends\<newline>\<newline>''
              @ ''The crypto market is showing a bullish pattern in the last 24 hours with most major assets gaining value.''
              @ ''\<newline>\<newline>**Top gainers:**\<newline>''
              @ join '', '' [''SOL (+8.2%)'', ''JUP (+15.4%)'', ''WIF (+23.1%)'']
              @ ''\<newline>\<newline>**Top losers:**\<newline>''
              @ join '', '' [''Some Token (-3.2%)'', ''Another Token (-2.1%)'']
              @ ''\<newline>\<newline>**Solana ecosystem:**\<newline>''
              @ ''The Solana ecosystem is outperforming the broader market with increased DeFi activity.''
              @ ''\<newline>\<newline>''
              @ (if walletConnected ctx
                 then ''Based on your wallet holdings, you might be interested in keeping an eye on SOL price movements.''
                 else ''Connect your wallet for personalized market insights based on your holdings.'')
              @ ''\<newline>'',
           intent = Some MarketTrendsIntent, suggestions = None\<rparr>, g)"

definition help_handler :: handler_fn where
  \<open>help_handler e g m ctx =
     (let connectionStatus =
            (if walletConnected ctx
             then ''Your wallet ('' @ short_address (walletAddress ctx) @ '') is connected with ''
                  @ toFixed (numToString e) 4 (balance ctx) @ '' SOL.''
             else ''Please connect your wallet to access all features.'')
      in (Inr \<lparr>message = ''I'm your advanced Web3 AI assistant. '' @ connectionStatus
                 @ ''\<newline>\<newline>Here's what I can help you with:\<newline>\<newline>''
                 @ ''1. **Token Swaps** - Example: "Swap 1 SOL to USDC"\<newline>''
                 @ ''2. **Balance Check** - Example: "Check my balance"\<newline>''
                 @ ''3. **Transaction History** - Example: "Show my recent transactions"\<newline>''
                 @ ''4. **Token Information** - Example: "Tell me about SOL"\<newline>''
                 @ ''5. **Market Trends** - Example: "What are the market trends?"\<newline>''
                 @ ''6. **Help** - Example: "What can you do?"\<newline>\<newline>''
                 @ ''I support many tokens including SOL, USDC, BONK, USDT, JUP, JTO, RAY, PYTH, MEME, and WIF. I can also provide real-time price estimates when performing swaps.'',
               intent = Some HelpIntent, suggestions = None\<rparr>, g))\<close>

text \<open>The transfer handler neither reads nor writes the module state.\<close>

definition transfer_op_handler :: handler_fn where
  "transfer_op_handler e g m ctx = (transfer_handler e m ctx, g)"

definition cryptoKnowledge_handler :: handler_fn where
  "cryptoKnowledge_handler e g m ctx =
     (case grp m 1 of
        None \<Rightarrow> (Inl TypeError, g)
      | Some t \<Rightarrow>
          (Inr \<lparr>message = ''Crypto knowledge response'',
                intent = Some (CryptoKnowledgeIntent (toLowerCase t)),
                suggestions = None\<rparr>, g))"

definition analysis_advanced :: string where
  "analysis_advanced =
     ''# Comprehensive Market Analysis\<newline>\<newline>''
     @ ''## Current Market Structure\<newline>''
     @ ''The crypto market is showing characteristics consistent with ''
     @ ''the early accumulation phase following a bear market, with select assets beginning to show strength while overall sentiment remains cautious.\<newline>\<newline>''
     @ ''## On-Chain Indicators\<newline>''
     @ ''- Exchange outflows have increased 15% month-over-month, suggesting accumulation\<newline>''
     @ ''- Long-term holder supply is near all-time highs at 78% of circulating supply\<newline>''
     @ ''- Realized cap has stabilized, indicating absorption of selling pressure\<newline>''
     @ ''- Stablecoin market cap ratio suggests significant dry powder waiting on sidelines\<newline>\<newline>''
     @ ''## Macro Correlations\<newline>''
     @ ''- Reduced correlation with equities (0.65, down from 0.82)\<newline>''
     @ ''- Increased sensitivity to liquidity conditions and Fed policy\<newline>''
     @ ''- Dollar strength remains a headwind for risk assets\<newline>\<newline>''
     @ ''## Technical Structure\<newline>''
     @ ''- Higher lows forming on weekly timeframes\<newline>''
     @ ''- 200-week moving average providing support\<newline>''
     @ ''- Decreased volatility typically preceding expansion phase\<newline>\<newline>''"

definition analysis_intermediate :: string where
  "analysis_intermediate =
     ''# Current Market Analysis\<newline>\<newline>''
     @ ''The crypto market is currently showing signs of recovery with several key indicators suggesting accumulation:\<newline>\<newline>''
     @ ''- Prices have stabilized and are forming higher lows\<newline>''
     @ ''- Trading volume has increased on positive price movements\<newline>''
     @ ''- Long-term holders are no longer selling and have begun accumulating\<newline>''
     @ ''- Market sentiment has shifted from extreme fear toward neutral\<newline>\<newline>''
     @ ''Key levels to watch include the 200-day moving average and previous support/resistance zones. Market structure appears to be improving, but remains vulnerable to macro factors including central bank policy and traditional market movements.\<newline>\<newline>''
     @ ''For Solana specifically, ecosystem activity metrics have improved significantly, with daily active addresses and transaction count trending upward.''"

definition analysis_beginner :: string where
  "analysis_beginner =
     ''# Simple Market Update\<newline>\<newline>''
     @ ''The crypto market has been recovering after a difficult period. Here's what you should know:\<newline>\<newline>''
     @ ''- Prices have been gradually increasing over recent months\<newline>''
     @ ''- More people are getting interested in crypto again\<newline>''
     @ ''- The overall mood has improved from fearful to cautiously optimistic\<newline>''
     @ ''- New projects and developments continue despite earlier price drops\<newline>\<newline>''
     @ ''Remember that crypto markets can be very unpredictable and volatile. It's important to only invest what you can afford to lose and to take a long-term perspective if you decide to invest.\<newline>\<newline>''
     @ ''For Solana, things have been looking positive with more people using the network and new projects launching.''"

text \<open>
  The two calls of the knowledge service come first; an exception of either leaves the
  handler. The level is \<^verbatim>\<open>context.expertiseLevel || "beginner"\<close>.
\<close>

definition marketAnalysis_handler :: handler_fn where
  "marketAnalysis_handler e g m ctx =
     (case getMarketAnalysis e ''market cycles'' of
        Inl err \<Rightarrow> (Inl err, g)
      | Inr marketCycles \<Rightarrow>
          (case getMarketAnalysis e ''sentiment'' of
             Inl err \<Rightarrow> (Inl err, g)
           | Inr sentiment \<Rightarrow>
               let level = (if falsy_str (expertiseLevel ctx) then ''beginner''
                            else the (expertiseLevel ctx));
                   resp = (if level = ''advanced'' then analysis_advanced
                           else if level = ''intermediate'' then analysis_intermediate
                           else analysis_beginner)
               in (Inr \<lparr>message = resp, intent = Some (MarketAnalysisIntent level),
                        suggestions = None\<rparr>, g)))"

text \<open>
  \<open>getInvestmentData\<close> returns the two mock strategies whatever the type asked for. The
  lookup \<^verbatim>\<open>data[investmentType]\<close> is a property read on a plain object: the two inherited
  keys that are all lower case give an object without \<^verbatim>\<open>advantages\<close>, and the \<^verbatim>\<open>join\<close> on
  it raises.
\<close>

definition investment_text :: "string \<Rightarrow> error + string" where
  "investment_text investmentType =
     (if investmentType = ''portfolio'' then
        Inr (''Investment Strategy for portfolio:\<newline>''
             @ ''Description: Portfolio management strategies\<newline>''
             @ ''Implementation: Diversified asset allocation\<newline>''
             @ ''Advantages: '' @ join '', '' [''Risk reduction'', ''Stable returns''] @ ''\<newline>''
             @ ''Risk Level: Medium\<newline>'')
      else if investmentType = ''risk'' then
        Inr (''Investment Strategy for risk:\<newline>''
             @ ''Description: Risk management strategies\<newline>''
             @ ''Implementation: Stop-loss and position sizing\<newline>''
             @ ''Advantages: '' @ join '', '' [''Capital preservation'', ''Emotional control''] @ ''\<newline>''
             @ ''Risk Level: Low\<newline>'')
      else if investmentType = ''constructor'' \<or> investmentType = ''__proto__'' then Inl TypeError
      else Inr [])"

definition investmentEducation_handler :: handler_fn where
  "investmentEducation_handler e g m ctx =
     (case grp m 1 of
        None \<Rightarrow> (Inl TypeError, g)
      | Some t \<Rightarrow>
          let investmentType = toLowerCase t in
          case investment_text investmentType of
            Inl err \<Rightarrow> (Inl err, g)
          | Inr resp \<Rightarrow>
              (Inr \<lparr>message = (if resp = [] then ''No investment data found'' else resp),
                    intent = Some (InvestmentEducationIntent investmentType),
                    suggestions = None\<rparr>, g))"

section \<open>The pattern catalog\<close>

text \<open>Words separated by \<^verbatim>\<open>\s+\<close>.\<close>

fun phrase :: "string list \<Rightarrow> rx" where
  "phrase [] = Lit []"
| "phrase [w] = Lit w"
| "phrase (w # ws) = Seq (Lit w) (Seq sp (phrase ws))"

text \<open>
  \<^verbatim>\<open>verb\s+(\d+\.?\d*)\s+(\w+)\s+(?:p1|p2|..)\s+(\w+)\<close> and
  \<^verbatim>\<open>verb\s+(?:all|everything|all\s+my)\s+(\w+)\s+(?:p1|p2|..)\s+(\w+)\<close>.
\<close>

definition swap_amount :: "string \<Rightarrow> string list \<Rightarrow> rx" where
  "swap_amount verb preps =
     seqs [Lit verb, sp, Grp 1 rx_number, sp, Grp 2 wd, sp, alts preps, sp, Grp 3 wd]"

definition swap_all :: "string \<Rightarrow> string list \<Rightarrow> rx" where
  "swap_all verb preps =
     seqs [Lit verb, sp, alt_list [Lit ''all'', Lit ''everything'', phrase [''all'', ''my'']], sp,
           Grp 1 wd, sp, alts preps, sp, Grp 2 wd]"

text \<open>\<^verbatim>\<open>(\d+\.?\d*)\s+(\w+)\s+(?:to|into|for)\s+(\w+)\<close>, the sixth pattern of the swap operation.\<close>

definition generic_swap_pattern :: rx where
  "generic_swap_pattern =
     seqs [Grp 1 rx_number, sp, Grp 2 wd, sp, alts [''to'', ''into'', ''for''], sp, Grp 3 wd]"

definition swap_patterns :: "rx list" where
  "swap_patterns =
     [swap_amount ''swap'' [''to'', ''for''],
      swap_amount ''convert'' [''to'', ''into''],
      swap_amount ''exchange'' [''to'', ''for''],
      swap_amount ''trade'' [''to'', ''for''],
      swap_amount ''change'' [''to'', ''into'', ''for''],
      generic_swap_pattern,
      swap_all ''swap'' [''to'', ''for''],
      swap_all ''convert'' [''to'', ''into''],
      swap_all ''exchange'' [''to'', ''for''],
      swap_all ''trade'' [''to'', ''for'']]"

definition balance_patterns :: "rx list" where
  "balance_patterns =
     [seqs [alt_list [Lit ''check'', Lit ''show'',
                      seqs [Lit ''what'', Opt (alt_list [Lit [CHR 0x27], Lit ''i'']), Lit ''s'', sp,
                            alts [''my'', ''the'']]],
            sp, Lit ''balance''],
      seqs [phrase [''how'', ''much''], sp, Opt (Seq wd sp),
            alt_list [phrase [''do'', ''i'', ''have''], phrase [''is'', ''in'', ''my'', ''wallet'']]],
      seqs [Lit ''balance'', sp, alts [''of'', ''for''], sp, Lit ''my'', sp,
            alts [''wallet'', ''account'']],
      phrase [''my'', ''balance''],
      phrase [''wallet'', ''balance'']]"

definition tokenInfo_patterns :: "rx list" where
  "tokenInfo_patterns =
     [seqs [alts [''tell'', ''what'', ''info'', ''information''], sp, alts [''me'', ''about'', ''is''], sp,
            Opt (Seq (Lit ''the'') sp), Opt (Seq (Lit ''token'') sp), Grp 1 wd],
      seqs [phrase [''what'', ''is''], sp, Grp 1 wd, Opt (Seq sp (Lit ''token''))],
      seqs [Lit ''explain'', sp, Grp 1 wd, Opt (Seq sp (Lit ''token''))],
      seqs [Grp 1 wd, sp, Lit ''info'', Opt (Lit ''rmation'')],
      seqs [phrase [''info'', ''on''], sp, Grp 1 wd]]"

definition price_patterns :: "rx list" where
  "price_patterns =
     [seqs [phrase [''price'', ''of''], sp, Grp 1 wd],
      seqs [phrase [''what's'', ''the'', ''price'', ''of''], sp, Grp 1 wd]]"

text \<open>\<^verbatim>\<open>(?:on|from|for|during|in)\s+(.+?)(?:\s|$)\<close>, the tail of the three dated history patterns.\<close>

definition date_tail :: rx where
  "date_tail =
     seqs [alts [''on'', ''from'', ''for'', ''during'', ''in''], sp, Grp 1 (LazyPlus Dot),
           Alt (Cls Space) Eol]"

definition history_patterns :: "rx list" where
  "history_patterns =
     [seqs [alts [''show'', ''view'', ''get'', ''check''], sp, Opt (Seq (Lit ''my'') sp),
            alts [''transaction'', ''tx''], sp, Lit ''history''],
      seqs [alts [''what'', ''show''], sp, alts [''are'', ''were''], sp, Lit ''my'', sp,
            alts [''recent'', ''last'', ''previous''], sp, Lit ''transactions''],
      seqs [alts [''my'', ''wallet''], sp, alts [''transaction'', ''tx''], sp, Lit ''history''],
      seqs [alts [''recent'', ''last'', ''previous''], sp, Lit ''transactions''],
      seqs [Lit ''what'', sp, alts [''did'', ''have''], sp, Lit ''i'', sp,
            alts [''do'', ''done'', ''transact'']],
      seqs [Lit ''transactions'', sp, date_tail],
      seqs [Lit ''what'', sp, alts [''happened'', ''occurred'', ''took place''], sp, date_tail],
      seqs [phrase [''show'', ''me''], sp, alts [''transactions'', ''activity''], sp, date_tail]]"

text \<open>\<^verbatim>\<open>(?:what|how)(?:'s| is| are)\s+(?:the\s+)?(?:market|w)(?:\s+doing)?\<close>.\<close>

definition market_question :: "string \<Rightarrow> rx" where
  "market_question w =
     seqs [alts [''what'', ''how''], alts [CHR 0x27 # ''s'', '' is'', '' are''], sp,
           Opt (Seq (Lit ''the'') sp), alts [''market'', w], Opt (Seq sp (Lit ''doing''))]"

definition marketTrends_patterns :: "rx list" where
  "marketTrends_patterns =
     [market_question ''markets'',
      seqs [Lit ''market'', sp, alts [''trend'', ''trends'', ''overview'', ''update'', ''sentiment'']],
      seqs [alts [''what'', ''which''], sp, alts [''token'', ''tokens'', ''coin'', ''coins''],
            Opt (alt_list [Seq sp (Lit ''are''), Seq sp (Lit ''is'')]), sp,
            alts [''trending'', ''hot'', ''popular'']],
      seqs [phrase [''what'', ''should'', ''i''], sp, alts [''buy'', ''invest'', ''trade'']],
      seqs [alts [''crypto'', ''token'', ''coin''], sp, Lit ''recommendations'']]"

definition help_patterns :: "rx list" where
  "help_patterns =
     [alt_list [Lit ''help'', Lit ''assist'', Lit ''guide'', Lit ''tutorial'',
                phrase [''how'', ''to'', ''use'']],
      phrase [''what'', ''can'', ''you'', ''do''],
      seqs [alts [''list'', ''show''], sp, alts [''commands'', ''features'', ''abilities'']],
      phrase [''help'', ''me'']]"

definition transfer_verbs :: "string list" where
  "transfer_verbs = [''send'', ''transfer'', ''pay'', ''give'']"

definition transfer_tokens :: "string list" where
  "transfer_tokens =
     [''sol'', ''usdc'', ''usdt'', ''bonk'', ''jup'', ''jto'', ''ray'', ''pyth'', ''meme'', ''wif'']"

text \<open>\<^verbatim>\<open>(?:send|transfer|pay|give)\s+(\d+\.?\d*)\s+(sol|usdc|...|wif)\<close>.\<close>

definition transfer_core :: rx where
  "transfer_core = seqs [alts transfer_verbs, sp, Grp 1 rx_number, sp, Grp 2 (alts transfer_tokens)]"

definition transfer_patterns :: "rx list" where
  "transfer_patterns =
     [Seq transfer_core (Opt (Seq sp (alts [''to'', ''for'', ''into'']))),
      seqs [transfer_core, Opt (seqs [sp, alts [''to'', ''for'', ''into''], sp]), Star Dot]]"

definition cryptoKnowledge_patterns :: "rx list" where
  "cryptoKnowledge_patterns =
     [seqs [alt_list [Lit ''explain'', phrase [''what'', ''is''], phrase [''tell'', ''me'', ''about''],
                      phrase [''how'', ''does'']],
            sp, Grp 1 (Plus Dot), sp, alts [''work'', ''mean'', ''function'']],
      seqs [alt_list [Lit ''explain'', phrase [''what'', ''is''], phrase [''tell'', ''me'', ''about'']],
            sp, Grp 1 (Plus Dot)],
      seqs [alt_list [phrase [''how'', ''does''], phrase [''how'', ''do'']],
            sp, Grp 1 (Plus Dot), sp, alts [''work'', ''function'']],
      seqs [alts [''what'', ''why'', ''when'', ''how''], sp,
            alts [''are'', ''is'', ''should'', ''do'', ''does''], sp, Grp 1 (Plus Dot)]]"

definition marketAnalysis_patterns :: "rx list" where
  "marketAnalysis_patterns =
     [seqs [alts [''market'', ''price''], sp,
            alts [''analysis'', ''outlook'', ''prediction'', ''forecast'', ''trend'']],
      market_question ''prices'',
      seqs [alts [''bull'', ''bear''], sp, alts [''market'', ''cycle'', ''phase'']],
      seqs [alts [''crypto'', ''market''], sp, alts [''sentiment'', ''feeling'', ''outlook'']]]"

definition investmentEducation_patterns :: "rx list" where
  "investmentEducation_patterns =
     [seqs [alts [''how'', ''what''], sp, alt_list [Lit ''to'', phrase [''should'', ''I'']], sp,
            alts [''invest'', ''investing'']],
      seqs [alts [''investment'', ''investing''], sp,
            alts [''strategy'', ''strategies'', ''advice'', ''tips'']],
      seqs [alts [''portfolio'', ''risk''], sp,
            alts [''management'', ''allocation'', ''diversification'']],
      seqs [alts [''teach'', ''explain'', ''educate''], sp, alts [''me'', ''about''], sp,
            alts [''investing'', ''investment'']]]"

record operation =
  op_description :: string
  patterns :: "rx list"
  handler :: handler_fn

text \<open>The catalog, in the order of its declaration, which is the order of iteration.\<close>

definition OPERATIONS :: "(string \<times> operation) list" where
  "OPERATIONS =
     [(''swap'', \<lparr>op_description = ''Exchange one token for another'',
                  patterns = swap_patterns, handler = swap_handler\<rparr>),
      (''balance'', \<lparr>op_description = ''Check token balances'',
                     patterns = balance_patterns, handler = balance_handler\<rparr>),
      (''tokenInfo'', \<lparr>op_description = ''Get information about tokens'',
                       patterns = tokenInfo_patterns, handler = tokenInfo_handler\<rparr>),
      (''price'', \<lparr>op_description = ''Get current price of a token'',
                   patterns = price_patterns, handler = price_handler\<rparr>),
      (''history'', \<lparr>op_description = ''View transaction history'',
                     patterns = history_patterns, handler = history_handler\<rparr>),
      (''marketTrends'', \<lparr>op_description = ''Get market trends and insights'',
                          patterns = marketTrends_patterns, handler = marketTrends_handler\<rparr>),
      (''help'', \<lparr>op_description = ''Get help on using the assistant'',
                  patterns = help_patterns, handler = help_handler\<rparr>),
      (''transfer'', \<lparr>op_description = ''Transfer SOL or tokens to a wallet'',
                      patterns = transfer_patterns, handler = transfer_op_handler\<rparr>),
      (''cryptoKnowledge'', \<lparr>op_description = ''Provide in-depth crypto knowledge on various topics'',
                             patterns = cryptoKnowledge_patterns, handler = cryptoKnowledge_handler\<rparr>),
      (''marketAnalysis'', \<lparr>op_description = ''Provide market analysis and insights'',
                            patterns = marketAnalysis_patterns, handler = marketAnalysis_handler\<rparr>),
      (''investmentEducation'', \<lparr>op_description = ''Provide investment education and strategies'',
                                 patterns = investmentEducation_patterns,
                                 handler = investmentEducation_handler\<rparr>)]"

section \<open>Tips and general chat\<close>

text \<open>
  Each gate draws a random number only when the conditions before the draw hold, so the
  index of a draw is the number of draws taken before it.
\<close>

definition getPersonalizedTips :: "env \<Rightarrow> conversation_context \<Rightarrow> request_context \<Rightarrow> string option" where
  \<open>getPersonalizedTips e cc ctx =
     (let topics = recentTopics cc;
          g1 = (''balance'' \<in> set topics \<and> ''swap'' \<notin> set topics);
          n1 = (if g1 then 1 else 0 :: nat)
      in if g1 \<and> mathRandom e 0 > nearest (6 / 10)
         then Some ''Tip: You can swap your SOL for other tokens by typing 'Swap 1 SOL to USDC'.''
         else
           let g2 = (''swap'' \<in> set topics \<and> ''tokenInfo'' \<notin> set topics);
               n2 = n1 + (if g2 then 1 else 0);
               fav = first_elem (favoriteTokens (userPreferences cc));
               favoriteToken = (if falsy_str fav then first_elem (recentTokens cc) else fav)
           in if g2 \<and> mathRandom e n1 > nearest (6 / 10) \<and> \<not> falsy_str favoriteToken
              then Some (''Tip: You can learn more about '' @ the favoriteToken
                         @ '' by asking "Tell me about '' @ the favoriteToken @ ''".'')
              else if walletConnected ctx \<and> balance ctx < nearest (5 / 100)
              then Some ''Tip: Your SOL balance is low. You'll need SOL to pay for transaction fees when swapping tokens.''
              else
                let g4 = (''marketTrends'' \<notin> set topics \<and> length (recentTokens cc) > 0);
                    n4 = n2 + (if g4 then 1 else 0)
                in if g4 \<and> mathRandom e n2 > nearest (7 / 10)
                   then Some ''Tip: Ask 'What are the market trends?' to get insights on current token performance.''
                   else if walletConnected ctx \<and> length topics > 2 \<and> ''history'' \<notin> set topics
                           \<and> mathRandom e n4 > nearest (7 / 10)
                   then Some ''Tip: You can view your recent transactions by asking 'Show my transaction history'.''
                   else None)\<close>

definition CONVERSATION_PATTERNS :: "(string \<times> rx list) list" where
  "CONVERSATION_PATTERNS =
     [(''greeting'',
         [Seq Bol (alt_list [Lit ''hi'', Lit ''hello'', Lit ''hey'', Lit ''howdy'', Lit ''greetings'',
                             seqs [Lit ''good'', sp, alts [''morning'', ''afternoon'', ''evening'']],
                             seqs [Lit ''what'', Opt (Lit [CHR 0x27]), Lit ''s'', sp, Lit ''up'']])]),
      (''farewell'',
         [Seq Bol (alt_list [Lit ''bye'', Lit ''goodbye'', phrase [''see'', ''you''], Lit ''farewell'',
                             Lit ''later'',
                             seqs [phrase [''have'', ''a''], sp, alts [''good'', ''nice'', ''great''], sp,
                                   alts [''day'', ''night'', ''evening'']]])]),
      (''thanks'',
         [Seq Bol (alt_list [Lit ''thanks'', phrase [''thank'', ''you''], Lit ''thx'', Lit ''ty'',
                             seqs [Lit ''appreciate'', sp, alts [''it'', ''you'']]])]),
      (''identity'',
         [seqs [alts [''who'', ''what''], sp, phrase [''are'', ''you'']],
          seqs [Lit ''tell'', sp, Opt (Seq (Lit ''me'') sp), phrase [''about'', ''yourself'']]]),
      (''capabilities'',
         [phrase [''what'', ''can'', ''you'', ''do''],
          phrase [''help'', ''me'', ''with''],
          seqs [phrase [''how'', ''does'', ''this''], sp,
                alt_list [Lit ''work'', phrase [''app'', ''work'']]]]),
      (''joke'',
         [seqs [Lit ''tell'', sp, Opt (Seq (Lit ''me'') sp), Lit ''a'', sp,
                alt_list [Lit ''joke'', phrase [''crypto'', ''joke'']]]])]"

definition greetings :: "string list" where
  "greetings =
     [''Hello! How can I help with your Web3 journey today?'',
      ''Hi there! I'm your AI assistant for Web3 and crypto. What can I do for you?'',
      ''Hey! Ready to explore the blockchain world together?'']"

definition thanks_replies :: "string list" where
  "thanks_replies =
     [''You're welcome! Happy to assist with your crypto needs.'',
      ''Anytime! Let me know if you need anything else related to blockchain.'',
      ''Glad I could help! Feel free to ask more about Web3.'']"

definition identity_replies :: "string list" where
  "identity_replies =
     [''I'm an AI assistant specialized in Web3 and cryptocurrency. While I can chat about general topics, I'm most knowledgeable about blockchain technology, Solana, and token swaps.'',
      ''I'm your Web3 AI Wallet assistant. I can help with token swaps, provide crypto information, and chat about various topics, though my expertise is in blockchain.'']"

definition capabilities_replies :: "string list" where
  "capabilities_replies =
     [''I can help you swap tokens on Solana, check token prices and balances, provide information about cryptocurrencies, and chat about various topics. Try asking me to 'Swap 1 SOL to USDC' or 'Tell me about NFTs'.'']"

definition CRYPTO_JOKES :: "string list" where
  "CRYPTO_JOKES =
     [''Why don't programmers like nature? It has too many bugs and no debugging tools!'',
      ''Why did the blockchain go to therapy? It had too many trust issues!'',
      ''How many Bitcoin miners does it take to change a lightbulb? 21 million, but only one gets the reward!'',
      ''Why did the crypto investor go to the dentist? Because of the tooth decay... just like their portfolio in a bear market!'',
      ''What do you call a cryptocurrency investor who finally breaks even? A miracle!'']"

text \<open>
  \<^verbatim>\<open>xs[Math.floor(Math.random() * xs.length)]\<close>; a draw lies in \<open>[0, 1)\<close>, and the rounded
  product of a draw and the length of one of the short lists below stays under the
  length, which keeps the index in range.
\<close>

definition pick :: "rat \<Rightarrow> string list \<Rightarrow> string" where
  "pick r xs =
     (let i = nat \<lfloor>nearest (r * of_nat (length xs))\<rfloor> in if i < length xs then xs ! i else [])"

definition chat_reply :: "env \<Rightarrow> string \<Rightarrow> string" where
  "chat_reply e ty =
     (if ty = ''greeting'' then pick (mathRandom e 0) greetings
      else if ty = ''farewell''
      then ''Goodbye! Feel free to return whenever you have Web3 questions or want to make transactions.''
      else if ty = ''thanks'' then pick (mathRandom e 0) thanks_replies
      else if ty = ''identity'' then pick (mathRandom e 0) identity_replies
      else if ty = ''capabilities'' then pick (mathRandom e 0) capabilities_replies
      else pick (mathRandom e 0) CRYPTO_JOKES)"

fun first_match :: "rx list \<Rightarrow> string \<Rightarrow> rmatch option" where
  "first_match [] s = None"
| "first_match (r # rs) s = (case rx_match s r of Some m \<Rightarrow> Some m | None \<Rightarrow> first_match rs s)"

fun find_conversation :: "(string \<times> rx list) list \<Rightarrow> string \<Rightarrow> string option" where
  "find_conversation [] s = None"
| "find_conversation ((ty, ps) # rest) s =
     (case first_match ps s of Some m \<Rightarrow> Some ty | None \<Rightarrow> find_conversation rest s)"

definition handleGeneralChat :: "env \<Rightarrow> string \<Rightarrow> response" where
  "handleGeneralChat e prompt =
     (case find_conversation CONVERSATION_PATTERNS prompt of
        Some ty \<Rightarrow> \<lparr>message = chat_reply e ty, intent = None, suggestions = None\<rparr>
      | None \<Rightarrow>
          \<lparr>message = ''I'm here to help with Web3 and blockchain topics primarily! You can ask me to swap tokens, check prices, or learn about crypto concepts. I can also chat about other topics, but my expertise is in the blockchain space.'',
           intent = None, suggestions = None\<rparr>)"

section \<open>The intent router\<close>

text \<open>\<^verbatim>\<open>^(?:send|transfer|pay|give)\s+(\d+\.?\d*)\s+(sol|usdc|...|wif)\<close>, tried on the lower-cased prompt.\<close>

definition fast_path_pattern :: rx where
  "fast_path_pattern = Seq Bol transfer_core"

definition starts_with_transfer_verb :: "string \<Rightarrow> bool" where
  "starts_with_transfer_verb lowerPrompt = list_ex (startsWith lowerPrompt) transfer_verbs"

text \<open>The first operation, in catalog order, one of whose patterns matches; its first such pattern.\<close>

fun find_operation ::
  "(string \<times> operation) list \<Rightarrow> string \<Rightarrow> (string \<times> operation \<times> rmatch) option" where
  "find_operation [] s = None"
| "find_operation ((opName, operation) # rest) s =
     (case first_match (patterns operation) s of
        Some m \<Rightarrow> Some (opName, operation, m)
      | None \<Rightarrow> find_operation rest s)"

definition run_operation ::
  "env \<Rightarrow> globals \<Rightarrow> string \<Rightarrow> request_context \<Rightarrow> string \<Rightarrow> operation \<Rightarrow> rmatch
     \<Rightarrow> (error + response) \<times> globals" where
  "run_operation e g prompt ctx opName operation m =
     (let g1 = g\<lparr>conversationContext :=
                   updateConversationContext prompt (Some opName) [] (conversationContext g)\<rparr>;
          (res, g2) = handler operation e g1 m ctx
      in case res of
           Inl err \<Rightarrow> (Inl err, g2)
         | Inr result \<Rightarrow>
             let result' = (case getPersonalizedTips e (conversationContext g2) ctx of
                              None \<Rightarrow> result
                            | Some tip \<Rightarrow> result\<lparr>message := message result @ ''\<newline>\<newline>'' @ tip\<rparr>)
             in (Inr (result'\<lparr>suggestions := Some (suggestedNextActions (conversationContext g2))\<rparr>),
                 g2))"

definition address_detected_response :: "string \<Rightarrow> response" where
  \<open>address_detected_response address =
     \<lparr>message = ''I've detected a Solana wallet address: '' @ slice_first 4 address @ ''...''
                 @ slice_last 4 address
                 @ ''. If you'd like to send funds to this address, please let me know the amount and token (e.g., "Send 0.1 SOL to this address").'',
      intent = None,
      suggestions = Some [''Send 0.1 SOL to this address'', ''Send 5 USDC to this address'',
                          ''What is this wallet?'']\<rparr>\<close>

definition fallback_response :: response where
  "fallback_response =
     \<lparr>message = ''Sorry, I couldn't understand that command. Please try something like 'Send 0.001 SOL to [wallet address]'.'',
      intent = None,
      suggestions = Some [''Check my balance'', ''What can you help me with?'']\<rparr>"

text \<open>The body of the \<^verbatim>\<open>try\<close> block: \<open>Inl\<close> is an exception that reaches the \<^verbatim>\<open>catch\<close>.\<close>

definition parseUserIntent_try ::
  "env \<Rightarrow> globals \<Rightarrow> string \<Rightarrow> request_context \<Rightarrow> (error + response) \<times> globals" where
  "parseUserIntent_try e g prompt ctx =
     (let enhancedContext = ctx\<lparr>originalPrompt := Some prompt\<rparr>;
          lowerPrompt = toLowerCase prompt;
          transferMatch = (if starts_with_transfer_verb lowerPrompt
                           then rx_match lowerPrompt fast_path_pattern else None)
      in case transferMatch of
           Some m \<Rightarrow> (transfer_handler e m enhancedContext, g)
         | None \<Rightarrow>
             (case find_operation OPERATIONS prompt of
                Some (opName, operation, m) \<Rightarrow> run_operation e g prompt ctx opName operation m
              | None \<Rightarrow>
                  (case detectSolanaAddress e prompt of
                     Inl err \<Rightarrow> (Inl err, g)
                   | Inr address \<Rightarrow>
                       if \<not> falsy_str address
                       then (Inr (address_detected_response (the address)), g)
                       else (Inr (handleGeneralChat e prompt), g))))"

definition parseUserIntent ::
  "env \<Rightarrow> globals \<Rightarrow> string \<Rightarrow> request_context \<Rightarrow> response \<times> globals" where
  "parseUserIntent e g prompt ctx =
     (case parseUserIntent_try e g prompt ctx of
        (Inl err, g') \<Rightarrow> (fallback_response, g')
      | (Inr result, g') \<Rightarrow> (result, g'))"

text \<open>The default value of the context parameter.\<close>

definition default_context :: request_context where
  "default_context =
     \<lparr>walletConnected = False, walletAddress = None, balance = 0, tokenBalances = [],
      expertiseLevel = None, originalPrompt = None\<rparr>"

section \<open>Shapes of text\<close>

text \<open>
  The texts \<^verbatim>\<open>\d+\.?\d*\<close> accepts in full (digits, then nothing or a point and digits), and
  the non-empty texts of one class (\<^verbatim>\<open>\s+\<close>, \<^verbatim>\<open>\w+\<close>).
\<close>

definition number_text :: "string \<Rightarrow> bool" where
  "number_text s =
     (takeWhile isDigit s \<noteq> [] \<and>
      (case dropWhile isDigit s of [] \<Rightarrow> True | c # fr \<Rightarrow> c = CHR ''.'' \<and> list_all isDigit fr))"

definition class_text :: "cls \<Rightarrow> string \<Rightarrow> bool" where
  "class_text k s = (s \<noteq> [] \<and> list_all (in_cls k) s)"

text \<open>The patterns without a capture group.\<close>

fun no_groups :: "rx \<Rightarrow> bool" where
  "no_groups (Grp i a) = False"
| "no_groups (Seq a b) = (no_groups a \<and> no_groups b)"
| "no_groups (Alt a b) = (no_groups a \<and> no_groups b)"
| "no_groups (Opt a) = no_groups a"
| "no_groups r = True"

text \<open>The operation the catalog selects for a prompt, by name, with the match it hands over.\<close>

definition matched_operation :: "string \<Rightarrow> (string \<times> rmatch) option" where
  "matched_operation prompt =
     map_option (\<lambda>(opName, operation, m). (opName, m)) (find_operation OPERATIONS prompt)"

section \<open>Sample inputs\<close>

definition sample_address :: string where
  "sample_address = ''7xKXtg2CW87d97TXJSDpbD5jBkheTqA83TZRuJosgAsU''"

text \<open>
  An environment in which the detector knows one address, the price service has no
  price, every draw is 0, the history is empty and the knowledge service answers.
\<close>

definition sample_env :: env where
  "sample_env =
     \<lparr>detectSolanaAddress =
        (\<lambda>s. Inr (if includes_str s sample_address then Some sample_address else None)),
      fetchTokenPrice = (\<lambda>s. Inr None),
      dateNow = 0,
      mathRandom = (\<lambda>k. 0),
      numToString = (\<lambda>q. ''<number>''),
      historyLookup = (\<lambda>s a. Inr (''I couldn't find any transactions.'', False)),
      getMarketAnalysis = (\<lambda>s. Inr ())\<rparr>"

text \<open>A connected wallet with a balance, as the fast path hands it to the transfer handler.\<close>

definition wallet_context :: "rat \<Rightarrow> string \<Rightarrow> request_context" where
  "wallet_context b prompt =
     \<lparr>walletConnected = True, walletAddress = Some ''9WzDXwBbmkg8ZTbNMqUxvQRAyrZzDsGYdLVL9zYtAWWM'',
      balance = b, tokenBalances = [], expertiseLevel = None, originalPrompt = Some prompt\<rparr>"

text \<open>Sample prompts, and the matches of the fast-path pattern on the transfer prompts.\<close>

definition prompt_no_address :: string where
  "prompt_no_address = ''Send 5 SOL to my friend''"

definition prompt_send_5_sol :: string where
  "prompt_send_5_sol = ''Send 5 SOL to 7xKXtg2CW87d97TXJSDpbD5jBkheTqA83TZRuJosgAsU''"

definition prompt_send_half_sol :: string where
  "prompt_send_half_sol = ''Send 0.5 SOL to 7xKXtg2CW87d97TXJSDpbD5jBkheTqA83TZRuJosgAsU''"

definition prompt_send_5_usdc :: string where
  "prompt_send_5_usdc = ''Send 5 USDC to 7xKXtg2CW87d97TXJSDpbD5jBkheTqA83TZRuJosgAsU''"

definition prompt_send_near_half :: string where
  "prompt_send_near_half = ''Send 0.499995 SOL to 7xKXtg2CW87d97TXJSDpbD5jBkheTqA83TZRuJosgAsU''"

text \<open>The double the text \<^verbatim>\<open>0.499995\<close> denotes.\<close>

definition near_half :: rat where
  "near_half = nearest (499995 / 1000000)"

definition prompt_please_send :: string where
  "prompt_please_send = ''Please send 5 SOL to 7xKXtg2CW87d97TXJSDpbD5jBkheTqA83TZRuJosgAsU''"

definition send_match :: "string \<Rightarrow> string \<Rightarrow> string \<Rightarrow> rmatch" where
  "send_match amount token prompt =
     \<lparr>input = toLowerCase prompt, index = 0, whole = ''send '' @ amount @ '' '' @ token,
      groups = [(2, token), (1, amount)]\<rparr>"

definition match_no_address :: rmatch where
  "match_no_address = send_match ''5'' ''sol'' prompt_no_address"

definition match_send_5_sol :: rmatch where
  "match_send_5_sol = send_match ''5'' ''sol'' prompt_send_5_sol"

definition match_send_half_sol :: rmatch where
  "match_send_half_sol = send_match ''0.5'' ''sol'' prompt_send_half_sol"

definition match_send_near_half :: rmatch where
  "match_send_near_half = send_match ''0.499995'' ''sol'' prompt_send_near_half"

definition match_send_5_usdc :: rmatch where
  "match_send_5_usdc = send_match ''5'' ''usdc'' prompt_send_5_usdc"

definition eleven_tokens :: "string list" where
  "eleven_tokens =
     [''SOL'', ''USDC'', ''USDT'', ''BONK'', ''JUP'', ''JTO'', ''RAY'', ''PYTH'', ''MEME'', ''WIF'', ''AKT'']"

section \<open>Properties of the rounding\<close>

text \<open>
  \<open>binexp\<close> is the binary exponent. The rounding is to the nearest double: it is determined
  by its exponent and its significand (\<open>nearest_eq\<close>), it moves a number of the normal
  range by at most the \<open>2^53\<close>-th part of it (\<open>nearest_error\<close>), and it is monotone.
\<close>

lemma binexp_bounds:
  assumes "0 < x"
  shows "2 powi binexp x \<le> x" and "x < 2 powi (binexp x + 1)"
proof -
  obtain p q where pq: "quotient_of x = (p, q)" by (cases "quotient_of x")
  have q: "0 < q" using quotient_of_denom_pos[OF pq] .
  have x: "x = of_int p / of_int q" using quotient_of_div[OF pq] .
  have p: "0 < p" using assms q unfolding x by (simp add: zero_less_divide_iff)
  define a where "a = floorlog 2 (nat p)"
  define b where "b = floorlog 2 (nat q)"
  define d where "d = int a - int b"
  have pa: "2 ^ (a - 1) \<le> nat p" "nat p < 2 ^ a"
    using floorlog_bounds[of "nat p" 2] p by (simp_all add: a_def)
  have qb: "2 ^ (b - 1) \<le> nat q" "nat q < 2 ^ b"
    using floorlog_bounds[of "nat q" 2] q by (simp_all add: b_def)
  have a1: "1 \<le> a" using pa(2) p by (cases a) auto
  have b1: "1 \<le> b" using qb(2) q by (cases b) auto
  have rp: "(2::rat) ^ (a - 1) \<le> of_int p" "(of_int p :: rat) < 2 ^ a"
  proof -
    have "(of_nat (2 ^ (a - 1)) :: rat) \<le> of_nat (nat p)" using pa(1) of_nat_le_iff by blast
    then show "(2::rat) ^ (a - 1) \<le> of_int p" using p by simp
    have "(of_nat (nat p) :: rat) < of_nat (2 ^ a)" using pa(2) of_nat_less_iff by blast
    then show "(of_int p :: rat) < 2 ^ a" using p by simp
  qed
  have rq: "(2::rat) ^ (b - 1) \<le> of_int q" "(of_int q :: rat) < 2 ^ b"
  proof -
    have "(of_nat (2 ^ (b - 1)) :: rat) \<le> of_nat (nat q)" using qb(1) of_nat_le_iff by blast
    then show "(2::rat) ^ (b - 1) \<le> of_int q" using q by simp
    have "(of_nat (nat q) :: rat) < of_nat (2 ^ b)" using qb(2) of_nat_less_iff by blast
    then show "(of_int q :: rat) < 2 ^ b" using q by simp
  qed
  have qpos: "(0::rat) < of_int q" using q by simp
  have lo: "2 powi (d - 1) \<le> x"
  proof -
    have "(2::rat) powi (d - 1) = 2 ^ (a - 1) / 2 ^ b"
    proof -
      have "d - 1 = int (a - 1) - int b" using a1 by (simp add: d_def)
      then show ?thesis by (simp add: power_int_diff)
    qed
    also have "\<dots> \<le> of_int p / 2 ^ b" using rp(1) by (simp add: divide_right_mono)
    also have "\<dots> \<le> of_int p / of_int q"
      using rq(2) qpos p by (intro divide_left_mono) (auto intro: mult_pos_pos)
    finally show ?thesis unfolding x .
  qed
  have hi: "x < 2 powi (d + 1)"
  proof -
    have "x = of_int p / of_int q" by (rule x)
    also have "\<dots> < 2 ^ a / of_int q" using rp(2) qpos by (simp add: divide_strict_right_mono)
    also have "\<dots> \<le> 2 ^ a / 2 ^ (b - 1)"
      using rq(1) qpos by (intro divide_left_mono) (auto intro: mult_pos_pos)
    also have "\<dots> = (2::rat) powi (d + 1)"
    proof -
      have "d + 1 = int a - int (b - 1)" using b1 by (simp add: d_def)
      then show ?thesis by (simp add: power_int_diff)
    qed
    finally show ?thesis .
  qed
  have be: "binexp x = (if 2 powi d \<le> x then d else d - 1)"
    by (simp add: binexp_def pq Let_def d_def a_def b_def)
  show "2 powi binexp x \<le> x" using lo by (simp add: be)
  show "x < 2 powi (binexp x + 1)" using hi by (auto simp: be not_le)
qed

lemma binexp_eq:
  assumes "2 powi e \<le> x" "x < 2 powi (e + 1)"
  shows "binexp x = e"
proof -
  have pos: "0 < x" using assms(1) by (rule less_le_trans[rotated]) simp
  note b = binexp_bounds[OF pos]
  have "\<not> binexp x < e"
  proof
    assume "binexp x < e"
    then have "binexp x + 1 \<le> e" by simp
    then have "(2::rat) powi (binexp x + 1) \<le> 2 powi e" by (intro power_int_increasing) auto
    then show False using b(2) assms(1) by simp
  qed
  moreover have "\<not> e < binexp x"
  proof
    assume "e < binexp x"
    then have "e + 1 \<le> binexp x" by simp
    then have "(2::rat) powi (e + 1) \<le> 2 powi binexp x" by (intro power_int_increasing) auto
    then show False using b(1) assms(2) by simp
  qed
  ultimately show ?thesis by simp
qed

lemma round_even_eq:
  assumes "\<bar>y - of_int m\<bar> < 1 / 2"
  shows "round_even y = m"
proof -
  have "\<lfloor>y\<rfloor> = m \<and> y - of_int m < 1 / 2 \<or> \<lfloor>y\<rfloor> = m - 1 \<and> 1 / 2 < y - of_int (m - 1)"
  proof (cases "of_int m \<le> y")
    case True
    then have "\<lfloor>y\<rfloor> = m" using assms by (intro floor_unique) auto
    then show ?thesis using assms True by auto
  next
    case False
    then have "\<lfloor>y\<rfloor> = m - 1" using assms by (intro floor_unique) auto
    then show ?thesis using assms False by auto
  qed
  then show ?thesis by (auto simp: round_even_def Let_def)
qed


lemma nearest_eq:
  assumes "2 powi e \<le> x" "x < 2 powi (e + 1)" "- 1022 \<le> e"
    and "\<bar>x / 2 powi (e - 52) - of_int m\<bar> < 1 / 2"
  shows "nearest x = of_int m * 2 powi (e - 52)"
proof -
  have pos: "0 < x" using assms(1) by (rule less_le_trans[rotated]) simp
  have "binexp \<bar>x\<bar> = e" using binexp_eq[OF assms(1,2)] pos by simp
  then show ?thesis using pos assms(3) round_even_eq[OF assms(4)]
    by (simp add: nearest_def Let_def max_def)
qed




lemma round_even_mono: "x \<le> y \<Longrightarrow> round_even x \<le> round_even y"
proof -
  assume xy: "x \<le> y"
  have fx: "of_int \<lfloor>x\<rfloor> \<le> x" "x < of_int \<lfloor>x\<rfloor> + 1" by linarith+
  have fy: "of_int \<lfloor>y\<rfloor> \<le> y" "y < of_int \<lfloor>y\<rfloor> + 1" by linarith+
  have "\<lfloor>x\<rfloor> \<le> \<lfloor>y\<rfloor>" using xy by (rule floor_mono)
  then consider "\<lfloor>x\<rfloor> = \<lfloor>y\<rfloor>" | "\<lfloor>x\<rfloor> + 1 \<le> \<lfloor>y\<rfloor>" by linarith
  then show ?thesis
  proof cases
    case 1
    then show ?thesis using xy by (auto simp: round_even_def Let_def)
  next
    case 2
    have "round_even x \<le> \<lfloor>x\<rfloor> + 1" by (auto simp: round_even_def Let_def)
    moreover have "\<lfloor>y\<rfloor> \<le> round_even y" by (auto simp: round_even_def Let_def)
    ultimately show ?thesis using 2 by linarith
  qed
qed

lemma round_even_of_int: "round_even (of_int n) = n"
  by (rule round_even_eq) simp





lemma nearest_nonneg:
  assumes "0 \<le> x"
  shows "0 \<le> nearest x"
proof (cases "x = 0")
  case True
  then show ?thesis by (simp add: nearest_def)
next
  case False
  define u :: rat where "u = 2 powi (max (binexp \<bar>x\<bar>) (- 1022) - 52)"
  have u: "0 < u" by (simp add: u_def)
  have "of_int 0 \<le> x / u" using assms u by simp
  then have "round_even (of_int 0) \<le> round_even (x / u)" by (rule round_even_mono)
  then have "0 \<le> round_even (x / u)" by (simp only: round_even_of_int)
  then have "0 \<le> (of_int (round_even (x / u)) :: rat) * u"
    using u by simp
  then show ?thesis using False by (simp add: nearest_def Let_def u_def)
qed


text \<open>The doubles of the sample inputs.\<close>

lemma transactionFee_value: "transactionFee = 5902958103587057 / 2 ^ 70"
  unfolding transactionFee_def
  using nearest_eq[of "- 18" "5 / 1000000" 5902958103587057] by simp


lemma exact_doubles:
  "nearest 5 = 5" "nearest (1 / 2) = 1 / 2" "nearest 1 = 1" "nearest 10 = 10"
  using nearest_eq[of 2 5 5629499534213120] nearest_eq[of "- 1" "1 / 2" 4503599627370496]
    nearest_eq[of 0 1 4503599627370496] nearest_eq[of 3 10 5629499534213120]
  by simp_all

lemma fl_exact: "fl 5 = Num 5" "fl (1 / 2) = Num (1 / 2)" "fl 1 = Num 1"
  by (simp_all add: fl_def exact_doubles)

lemma fl_sample_sums:
  "fl (5 + transactionFee) = Num (2814752581856327 / 2 ^ 49)"
  "fl (1 / 2 + transactionFee) = Num (2251822331683385 / 2 ^ 52)"
  "fl (1 / 2 - transactionFee) = Num (9007109182748445 / 2 ^ 54)"
proof -
  have 1: "nearest (5 + transactionFee) = 2814752581856327 / 2 ^ 49"
    unfolding transactionFee_value
    using nearest_eq[of 2 "5 + 5902958103587057 / 2 ^ 70" 5629505163712654] by simp
  have 2: "nearest (1 / 2 + transactionFee) = 2251822331683385 / 2 ^ 52"
    unfolding transactionFee_value
    using nearest_eq[of "- 1" "1 / 2 + 5902958103587057 / 2 ^ 70" 4503644663366770] by simp
  have 3: "nearest (1 / 2 - transactionFee) = 9007109182748445 / 2 ^ 54"
    unfolding transactionFee_value
    using nearest_eq[of "- 2" "1 / 2 - 5902958103587057 / 2 ^ 70" 9007109182748445] by simp
  show "fl (5 + transactionFee) = Num (2814752581856327 / 2 ^ 49)"
    by (simp add: fl_def 1)
  show "fl (1 / 2 + transactionFee) = Num (2251822331683385 / 2 ^ 52)"
    by (simp add: fl_def 2)
  show "fl (1 / 2 - transactionFee) = Num (9007109182748445 / 2 ^ 54)"
    by (simp add: fl_def 3)
qed

text \<open>
  Two effects of the rounding. The text \<^verbatim>\<open>0.499995\<close> denotes a double below 0.499995, and
  its sum with the fee is more than 0.5 before the rounding and exactly 0.5 after it, so a
  balance of 0.5 covers the amount and the fee. The double of \<^verbatim>\<open>0.281255\<close> less the fee is
  exactly 0.28125, which \<^verbatim>\<open>toFixed(4)\<close> prints as \<^verbatim>\<open>0.2813\<close>.
\<close>

lemma rounded_sum_meets_balance:
  "nearest (499995 / 1000000) = 9007109182748445 / 2 ^ 54"
  "1 / 2 < 9007109182748445 / 2 ^ 54 + transactionFee"
  "num_add (Num (9007109182748445 / 2 ^ 54)) transactionFee = Num (1 / 2)"
  "\<not> num_greater (num_add (Num (9007109182748445 / 2 ^ 54)) transactionFee) (1 / 2)"
proof -
  show "nearest (499995 / 1000000) = 9007109182748445 / 2 ^ 54"
    using nearest_eq[of "- 2" "499995 / 1000000" 9007109182748445] by simp
  show "1 / 2 < 9007109182748445 / 2 ^ 54 + transactionFee"
    by (simp add: transactionFee_value)
  have n: "nearest (9007109182748445 / 2 ^ 54 + transactionFee) = 1 / 2"
    unfolding transactionFee_value
    using nearest_eq[of "- 1" "9007109182748445 / 2 ^ 54 + 5902958103587057 / 2 ^ 70"
        4503599627370496] by simp
  show s: "num_add (Num (9007109182748445 / 2 ^ 54)) transactionFee = Num (1 / 2)"
    by (simp only: num_add.simps fl_def n Let_def) simp
  show "\<not> num_greater (num_add (Num (9007109182748445 / 2 ^ 54)) transactionFee) (1 / 2)"
    unfolding s by simp
qed

lemma rounded_difference_tie:
  "nearest (281255 / 1000000) = 5066639652784355 / 2 ^ 54"
  "num_sub (5066639652784355 / 2 ^ 54) transactionFee = Num (28125 / 100000)"
  "round_scaled 4 (28125 / 100000) = 2813"
  "round_scaled 4 (5066639652784355 / 2 ^ 54 - transactionFee) = 2812"
proof -
  show "nearest (281255 / 1000000) = 5066639652784355 / 2 ^ 54"
    using nearest_eq[of "- 2" "281255 / 1000000" 5066639652784355] by simp
  have n: "nearest (5066639652784355 / 2 ^ 54 - transactionFee) = 28125 / 100000"
    unfolding transactionFee_value
    using nearest_eq[of "- 2" "5066639652784355 / 2 ^ 54 - 5902958103587057 / 2 ^ 70"
        5066549580791808] by simp
  show "num_sub (5066639652784355 / 2 ^ 54) transactionFee = Num (28125 / 100000)"
    by (simp only: num_sub_def fl_def n Let_def) simp
  show "round_scaled 4 (28125 / 100000) = 2813"
    by (simp add: round_scaled_def floor_eq_iff nat_eq_iff)
  show "round_scaled 4 (5066639652784355 / 2 ^ 54 - transactionFee) = 2812"
    by (simp add: round_scaled_def transactionFee_value floor_eq_iff nat_eq_iff)
qed

section \<open>Properties of the matcher\<close>

lemma strip_ci_append:
  "toLowerCase kw = toLowerCase w \<Longrightarrow> strip_ci w (kw @ rest) = Some rest"
proof (induction w "kw @ rest" arbitrary: kw rule: strip_ci.induct)
  case (1 s)
  then show ?case by (simp add: toLowerCase_def)
next
  case (2 x xs)
  then show ?case by (simp add: toLowerCase_def)
next
  case (3 x xs y ys)
  then show ?case by (cases kw) (auto simp: toLowerCase_def)
qed

lemma ms_Lit:
  "toLowerCase kw = toLowerCase w \<Longrightarrow> (rest, c) \<in> set (ms n (Lit w) (kw @ rest) c)"
  by (simp add: strip_ci_append)

lemma rep_greedy_self: "s \<in> set (rep_greedy P s)"
  by (cases s) auto

lemma rep_greedy_append: "list_all P w \<Longrightarrow> rest \<in> set (rep_greedy P (w @ rest))"
  by (induction w) (auto simp: rep_greedy_self)

lemma ms_Star: "list_all (in_cls k) w \<Longrightarrow> (rest, c) \<in> set (ms n (Star k) (w @ rest) c)"
  by (simp add: rep_greedy_append image_iff)

lemma ms_Plus:
  "w \<noteq> [] \<Longrightarrow> list_all (in_cls k) w \<Longrightarrow> (rest, c) \<in> set (ms n (Plus k) (w @ rest) c)"
  by (cases w) (auto simp: rep_greedy_append image_iff)

lemma ms_Seq:
  "(s1, c1) \<in> set (ms n a s c) \<Longrightarrow> (s2, c2) \<in> set (ms n b s1 c1)
   \<Longrightarrow> (s2, c2) \<in> set (ms n (Seq a b) s c)"
  by force

lemma ms_Grp:
  "(s1, c1) \<in> set (ms n a s c) \<Longrightarrow> \<exists>c2. (s1, c2) \<in> set (ms n (Grp i a) s c)"
  by force

lemma ms_Opt_skip: "(s, c) \<in> set (ms n (Opt a) s c)"
  by simp

lemma ms_Opt_take: "(s1, c1) \<in> set (ms n a s c) \<Longrightarrow> (s1, c1) \<in> set (ms n (Opt a) s c)"
  by simp

lemma ms_Alt1: "(s1, c1) \<in> set (ms n a s c) \<Longrightarrow> (s1, c1) \<in> set (ms n (Alt a b) s c)"
  by simp

text \<open>The number pattern can stop exactly at the end of a number text.\<close>

lemma ms_number:
  assumes "number_text num"
  shows "(rest, c) \<in> set (ms n rx_number (num @ rest) c)"
proof -
  let ?ip = "takeWhile isDigit num" and ?r = "dropWhile isDigit num"
  have ip: "?ip \<noteq> []" "list_all (in_cls Digit) ?ip"
    using assms by (auto simp: number_text_def list_all_iff dest: set_takeWhileD)
  have a: "(?r @ rest, c) \<in> set (ms n (Plus Digit) (?ip @ (?r @ rest)) c)"
    by (rule ms_Plus[OF ip])
  have b: "(rest, c) \<in> set (ms n (Seq (Opt (Lit ''.'')) (Star Digit)) (?r @ rest) c)"
  proof (cases ?r)
    case Nil
    have "(rest, c) \<in> set (ms n (Star Digit) ([] @ rest) c)" by (rule ms_Star) simp
    then have s: "(rest, c) \<in> set (ms n (Star Digit) rest c)" by (simp del: ms.simps)
    have "(rest, c) \<in> set (ms n (Seq (Opt (Lit ''.'')) (Star Digit)) rest c)"
      by (rule ms_Seq[OF ms_Opt_skip s])
    then show ?thesis by (simp only: Nil append_Nil)
  next
    case (Cons d fr)
    then have d: "d = CHR ''.''" and fr: "list_all (in_cls Digit) fr"
      using assms by (auto simp: number_text_def list_all_iff)
    have 1: "(fr @ rest, c) \<in> set (ms n (Opt (Lit ''.'')) (''.'' @ (fr @ rest)) c)"
      by (rule ms_Opt_take[OF ms_Lit]) simp
    have 2: "(rest, c) \<in> set (ms n (Star Digit) (fr @ rest) c)"
      by (rule ms_Star[OF fr])
    show ?thesis using ms_Seq[OF 1 2] by (simp only: Cons d append_Cons append_Nil)
  qed
  have "(rest, c) \<in> set (ms n rx_number (?ip @ (?r @ rest)) c)"
    unfolding rx_number_def seqs.simps by (rule ms_Seq[OF a b])
  then show ?thesis
    unfolding append_assoc[symmetric] takeWhile_dropWhile_id .
qed

lemma ms_to:
  assumes "toLowerCase kw = ''to''"
  shows "(rest, c) \<in> set (ms n (alts [''to'', ''into'', ''for'']) (kw @ rest) c)"
proof -
  have "toLowerCase kw = toLowerCase ''to''"
    using assms by (simp add: toLowerCase_def toLowerChar_def)
  then have "(rest, c) \<in> set (ms n (Lit ''to'') (kw @ rest) c)" by (rule ms_Lit)
  then show ?thesis unfolding alts.simps by (rule ms_Alt1)
qed

lemma generic_swap_matches:
  assumes "number_text num" "class_text Space s1" "class_text Word w1" "class_text Space s2"
    "toLowerCase kw = ''to''" "class_text Space s3" "class_text Word w2"
  shows "ms n generic_swap_pattern (num @ s1 @ w1 @ s2 @ kw @ s3 @ w2 @ post) [] \<noteq> []"
proof -
  obtain c1 where 1: "(s1 @ w1 @ s2 @ kw @ s3 @ w2 @ post, c1)
      \<in> set (ms n (Grp 1 rx_number) (num @ s1 @ w1 @ s2 @ kw @ s3 @ w2 @ post) [])"
    using ms_Grp[OF ms_number[OF assms(1)]] by blast
  have 2: "(w1 @ s2 @ kw @ s3 @ w2 @ post, c1)
      \<in> set (ms n sp (s1 @ w1 @ s2 @ kw @ s3 @ w2 @ post) c1)"
    by (rule ms_Plus) (use assms(2) in \<open>simp_all add: class_text_def\<close>)
  have "(s2 @ kw @ s3 @ w2 @ post, c1) \<in> set (ms n wd (w1 @ s2 @ kw @ s3 @ w2 @ post) c1)"
    by (rule ms_Plus) (use assms(3) in \<open>simp_all add: class_text_def\<close>)
  then obtain c3 where 3: "(s2 @ kw @ s3 @ w2 @ post, c3)
      \<in> set (ms n (Grp 2 wd) (w1 @ s2 @ kw @ s3 @ w2 @ post) c1)"
    using ms_Grp by blast
  have 4: "(kw @ s3 @ w2 @ post, c3) \<in> set (ms n sp (s2 @ kw @ s3 @ w2 @ post) c3)"
    by (rule ms_Plus) (use assms(4) in \<open>simp_all add: class_text_def\<close>)
  have 5: "(s3 @ w2 @ post, c3)
      \<in> set (ms n (alts [''to'', ''into'', ''for'']) (kw @ s3 @ w2 @ post) c3)"
    by (rule ms_to[OF assms(5)])
  have 6: "(w2 @ post, c3) \<in> set (ms n sp (s3 @ w2 @ post) c3)"
    by (rule ms_Plus) (use assms(6) in \<open>simp_all add: class_text_def\<close>)
  have "(post, c3) \<in> set (ms n wd (w2 @ post) c3)"
    by (rule ms_Plus) (use assms(7) in \<open>simp_all add: class_text_def\<close>)
  then obtain c7 where 7: "(post, c7) \<in> set (ms n (Grp 3 wd) (w2 @ post) c3)"
    using ms_Grp by blast
  have "(post, c7) \<in> set (ms n generic_swap_pattern (num @ s1 @ w1 @ s2 @ kw @ s3 @ w2 @ post) [])"
    unfolding generic_swap_pattern_def seqs.simps
    by (rule ms_Seq[OF 1 ms_Seq[OF 2 ms_Seq[OF 3 ms_Seq[OF 4 ms_Seq[OF 5 ms_Seq[OF 6 7]]]]]])
  then show ?thesis by auto
qed

text \<open>A match somewhere in the string is found by the search from any earlier position.\<close>

lemma search_from_finds:
  "ms (length inp) r s [] \<noteq> [] \<Longrightarrow> search_from inp r (pre @ s) \<noteq> None"
proof (induction pre)
  case Nil
  then show ?case by (cases "ms (length inp) r s []") auto
next
  case (Cons x xs)
  then show ?case by (cases "ms (length inp) r (x # xs @ s) []") auto
qed

lemma first_match_finds:
  "r \<in> set rs \<Longrightarrow> rx_match s r \<noteq> None \<Longrightarrow> first_match rs s \<noteq> None"
  by (induction rs) (auto split: option.splits)

lemma swap_is_first:
  assumes "first_match swap_patterns p = Some m"
  shows "find_operation OPERATIONS p = Some (''swap'', snd (hd OPERATIONS), m)"
  using assms by (simp add: OPERATIONS_def)

text \<open>
  Where the captures of a match come from: a pattern without groups leaves them as they
  are, so a match of the fast-path pattern or of a transfer pattern carries exactly the
  groups 1 and 2.
\<close>

lemma ms_Seq_iff:
  "(s', c') \<in> set (ms n (Seq a b) s c)
   \<longleftrightarrow> (\<exists>s1 c1. (s1, c1) \<in> set (ms n a s c) \<and> (s', c') \<in> set (ms n b s1 c1))"
  by auto

lemma ms_Grp_iff:
  "(s', c') \<in> set (ms n (Grp i a) s c)
   \<longleftrightarrow> (\<exists>c1. (s', c1) \<in> set (ms n a s c) \<and> c' = (i, take (length s - length s') s) # c1)"
  by auto

lemma ms_no_groups:
  "no_groups r \<Longrightarrow> (s', c') \<in> set (ms n r s c) \<Longrightarrow> c' = c"
proof (induction r arbitrary: s c s' c')
  case (Seq a b)
  from Seq.prems(2) obtain s1 c1 where 1: "(s1, c1) \<in> set (ms n a s c)"
    and 2: "(s', c') \<in> set (ms n b s1 c1)"
    unfolding ms_Seq_iff by blast
  have "c1 = c" using Seq.IH(1)[OF _ 1] Seq.prems(1) by simp
  moreover have "c' = c1" using Seq.IH(2)[OF _ 2] Seq.prems(1) by simp
  ultimately show ?case by simp
next
  case (Alt a b)
  then show ?case by auto
next
  case (Opt a)
  then show ?case by auto
qed (auto split: option.splits list.splits if_splits)

lemma no_groups_alts: "no_groups (alts ws)"
  by (induction ws rule: alts.induct) auto

lemma no_groups_number: "no_groups rx_number"
  by (simp add: rx_number_def)

lemma transfer_core_caps:
  assumes "(s', c') \<in> set (ms n transfer_core s c)"
  shows "\<exists>x y. c' = [(2, y), (1, x)] @ c"
proof -
  from assms obtain s1 c1 s2 c2 s3 c3 s4 c4 where
    1: "(s1, c1) \<in> set (ms n (alts transfer_verbs) s c)" and
    2: "(s2, c2) \<in> set (ms n sp s1 c1)" and
    3: "(s3, c3) \<in> set (ms n (Grp 1 rx_number) s2 c2)" and
    4: "(s4, c4) \<in> set (ms n sp s3 c3)" and
    5: "(s', c') \<in> set (ms n (Grp 2 (alts transfer_tokens)) s4 c4)"
    unfolding transfer_core_def seqs.simps ms_Seq_iff by blast
  have c1: "c1 = c" using ms_no_groups[OF no_groups_alts 1] .
  have c2: "c2 = c1" using ms_no_groups[OF _ 2] by simp
  obtain d3 where d3: "(s3, d3) \<in> set (ms n rx_number s2 c2)"
    and c3: "c3 = (1, take (length s2 - length s3) s2) # d3"
    using 3 unfolding ms_Grp_iff by blast
  have d3c: "d3 = c2" using ms_no_groups[OF no_groups_number d3] .
  have c4: "c4 = c3" using ms_no_groups[OF _ 4] by simp
  obtain d5 where d5: "(s', d5) \<in> set (ms n (alts transfer_tokens) s4 c4)"
    and c5: "c' = (2, take (length s4 - length s') s4) # d5"
    using 5 unfolding ms_Grp_iff by blast
  have d5c: "d5 = c4" using ms_no_groups[OF no_groups_alts d5] .
  show ?thesis using c1 c2 c3 d3c c4 c5 d5c by simp
qed

lemma search_from_result:
  "search_from inp r s = Some m \<Longrightarrow> \<exists>s0 s'. (s', groups m) \<in> set (ms (length inp) r s0 [])"
proof (induction inp r s rule: search_from.induct)
  case (1 inp r s)
  show ?case
  proof (cases "ms (length inp) r s []")
    case Nil
    with 1 show ?thesis by (cases s) auto
  next
    case (Cons a list)
    obtain s' c where a: "a = (s', c)" by (cases a)
    have "groups m = c" using "1.prems" Cons a by auto
    moreover have "(s', c) \<in> set (ms (length inp) r s [])" using Cons a by simp
    ultimately show ?thesis by blast
  qed
qed

lemma first_match_result:
  "first_match rs s = Some m \<Longrightarrow> \<exists>r \<in> set rs. rx_match s r = Some m"
  by (induction rs) (auto split: option.splits)

lemma with_tail_caps:
  assumes "no_groups tail" "(s', c') \<in> set (ms n (Seq transfer_core tail) s c)"
  shows "\<exists>x y. c' = [(2, y), (1, x)] @ c"
proof -
  from assms(2) obtain s1 c1 where 1: "(s1, c1) \<in> set (ms n transfer_core s c)"
    and 2: "(s', c') \<in> set (ms n tail s1 c1)"
    unfolding ms_Seq_iff by blast
  have "c' = c1" using ms_no_groups[OF assms(1) 2] .
  with transfer_core_caps[OF 1] show ?thesis by simp
qed

lemma transfer_matches_carry_groups:
  assumes "rx_match s fast_path_pattern = Some m \<or> first_match transfer_patterns s = Some m"
  shows "\<exists>x y. grp m 1 = Some x \<and> grp m 2 = Some y"
proof -
  have "\<exists>x y. groups m = [(2, y), (1, x)]"
    using assms
  proof
    assume "rx_match s fast_path_pattern = Some m"
    then obtain s0 s' where "(s', groups m) \<in> set (ms (length s) (Seq Bol transfer_core) s0 [])"
      unfolding rx_match_def fast_path_pattern_def using search_from_result by blast
    then obtain s1 c1 where 1: "(s1, c1) \<in> set (ms (length s) Bol s0 [])"
      and 2: "(s', groups m) \<in> set (ms (length s) transfer_core s1 c1)"
      unfolding ms_Seq_iff by blast
    have "c1 = []" using ms_no_groups[OF _ 1] by simp
    with transfer_core_caps[OF 2] show ?thesis by simp
  next
    assume "first_match transfer_patterns s = Some m"
    then obtain r where r: "r \<in> set transfer_patterns" and m: "rx_match s r = Some m"
      using first_match_result by blast
    from r obtain tail where tl: "r = Seq transfer_core tail" "no_groups tail"
      by (auto simp: transfer_patterns_def no_groups_alts)
    from m obtain s0 s' where "(s', groups m) \<in> set (ms (length s) r s0 [])"
      unfolding rx_match_def using search_from_result by blast
    with with_tail_caps[OF tl(2)] tl(1) show ?thesis by auto
  qed
  then show ?thesis by (auto simp: grp_def)
qed

section \<open>Properties of the transfer handler\<close>

lemmas transfer_responses =
  no_address_response_def connect_wallet_response_def invalid_amount_response_def
  insufficient_balance_response_def insufficient_for_fees_response_def
  insufficient_fee_balance_response_def confirm_transfer_response_def

lemma fullMessage_tokenBalances: "fullMessage m (ctx\<lparr>tokenBalances := tb\<rparr>) = fullMessage m ctx"
  by (simp add: fullMessage_def)

lemma response_intents:
  "intent connect_wallet_response = None" "intent no_address_response = None"
  "intent invalid_amount_response = None" "intent (insufficient_balance_response e ctx a) = None"
  "intent (insufficient_for_fees_response e ctx a) = None"
  "intent (insufficient_fee_balance_response e ctx) = None"
  "intent (confirm_transfer_response e rc a tk) = Some (TransferIntent rc a tk)"
  by (simp_all add: transfer_responses)

text \<open>A response of the handler has no intent or a transfer intent for the detected recipient.\<close>

lemma transfer_handler_intent:
  assumes "transfer_handler e m ctx = Inr r"
  shows "intent r = None
       \<or> (\<exists>rc a tk. intent r = Some (TransferIntent rc a tk) \<and> rc \<noteq> []
              \<and> detectSolanaAddress e (fullMessage m ctx) = Inr (Some rc))"
  using assms
  by (auto simp: transfer_handler_def Let_def response_intents falsy_str_def
      split: option.splits sum.splits if_splits)

lemma transfer_handler_no_swap:
  "transfer_handler e m ctx = Inr r \<Longrightarrow> intent r \<noteq> Some (SwapIntent t a)"
  using transfer_handler_intent[of e m ctx r] by auto




section \<open>Reading back a printed number\<close>

text \<open>
  The text \<^verbatim>\<open>toFixed\<close> prints for a number below \<open>10^21\<close> reads back, by \<^verbatim>\<open>parseFloat\<close>, as
  the double of the rounded number: the suggested amount of a reply is a number in this
  sense.
\<close>

lemma digit_cases: "k < 10 \<Longrightarrow> k \<in> {0, 1, 2, 3, 4, 5, 6, 7, 8, 9 :: nat}"
  by auto

lemma digitChar_props:
  assumes "k < 10"
  shows "isDigit (digitChar k)" "digitVal (digitChar k) = k" "\<not> isSpace (digitChar k)"
    "digitChar k \<noteq> CHR ''.''" "digitChar k \<noteq> CHR ''-''" "digitChar k \<noteq> CHR ''+''"
    "digitChar k \<noteq> CHR ''I''"
  using digit_cases[OF assms]
  by (auto simp: digitChar_def isDigit_def digitVal_def isSpace_def)

lemma isDigit_props:
  assumes "isDigit c"
  shows "\<not> isSpace c" "c \<noteq> CHR ''.''" "c \<noteq> CHR ''-''" "c \<noteq> CHR ''+''" "c \<noteq> CHR ''I''"
  using assms by (auto simp: isDigit_def isSpace_def Let_def)

lemma show_nat_digits: "list_all isDigit (show_nat n) \<and> show_nat n \<noteq> []"
proof (induction n rule: show_nat.induct)
  case (1 n)
  show ?case
  proof (cases "n < 10")
    case True
    then show ?thesis by (subst (1 2) show_nat.simps) (simp add: digitChar_props)
  next
    case False
    then have "n mod 10 < 10" by simp
    with False 1 show ?thesis by (subst (1 2) show_nat.simps) (simp add: digitChar_props)
  qed
qed

lemma read_nat_acc:
  "foldl (\<lambda>acc c. 10 * acc + digitVal c) a ds
   = a * 10 ^ length ds + foldl (\<lambda>acc c. 10 * acc + digitVal c) 0 ds"
proof (induction ds arbitrary: a)
  case Nil
  then show ?case by simp
next
  case (Cons d ds)
  let ?f = "\<lambda>acc c. 10 * acc + digitVal c"
  have "foldl ?f a (d # ds) = foldl ?f (10 * a + digitVal d) ds" by simp
  also have "\<dots> = (10 * a + digitVal d) * 10 ^ length ds + foldl ?f 0 ds" by (rule Cons.IH)
  also have "\<dots> = a * 10 ^ length (d # ds) + (digitVal d * 10 ^ length ds + foldl ?f 0 ds)"
    by (simp add: algebra_simps)
  also have "digitVal d * 10 ^ length ds + foldl ?f 0 ds = foldl ?f (digitVal d) ds"
    by (rule Cons.IH[symmetric])
  also have "foldl ?f (digitVal d) ds = foldl ?f 0 (d # ds)" by simp
  finally show ?case .
qed

lemma read_nat_append: "read_nat (xs @ ys) = read_nat xs * 10 ^ length ys + read_nat ys"
  unfolding read_nat_def foldl_append by (rule read_nat_acc)

lemma read_nat_show: "read_nat (show_nat n) = n"
proof (induction n rule: show_nat.induct)
  case (1 n)
  show ?case
  proof (cases "n < 10")
    case True
    then show ?thesis
      by (subst show_nat.simps) (simp add: read_nat_def digitChar_props)
  next
    case False
    have m: "n mod 10 < 10" by simp
    have "read_nat (show_nat (n div 10) @ [digitChar (n mod 10)]) = (n div 10) * 10 + n mod 10"
      using 1[OF False] by (simp add: read_nat_append) (simp add: read_nat_def digitChar_props(2)[OF m])
    then show ?thesis using False by (subst show_nat.simps) simp
  qed
qed

lemma read_nat_zeros: "read_nat (replicate k (CHR ''0'') @ ds) = read_nat ds"
proof -
  have "read_nat (replicate k (CHR ''0'')) = 0"
    by (induction k) (simp_all add: read_nat_def digitVal_def)
  then show ?thesis by (simp add: read_nat_append)
qed

lemma takeWhile_digits:
  "list_all isDigit ip \<Longrightarrow> \<not> isDigit c \<Longrightarrow> takeWhile isDigit (ip @ c # rest) = ip"
  by (induction ip) auto

lemma dropWhile_digits:
  "list_all isDigit ip \<Longrightarrow> \<not> isDigit c \<Longrightarrow> dropWhile isDigit (ip @ c # rest) = c # rest"
  by (induction ip) auto

lemma takeWhile_all_digits: "list_all isDigit fp \<Longrightarrow> takeWhile isDigit fp = fp"
  by (induction fp) auto

lemma dropWhile_all_digits: "list_all isDigit fp \<Longrightarrow> dropWhile isDigit fp = []"
  by (induction fp) auto

lemma parse_unsigned_decimal:
  assumes "list_all isDigit ip" "ip \<noteq> []" "list_all isDigit fp"
  shows "parse_unsigned (ip @ CHR ''.'' # fp)
           = Some (fl (of_nat (read_nat (ip @ fp)) / 10 ^ length fp))"
proof -
  have nd: "\<not> isDigit (CHR ''.'')" by (simp add: isDigit_def)
  show ?thesis
    using assms
    by (simp add: parse_unsigned_def Let_def takeWhile_digits[OF assms(1) nd]
          dropWhile_digits[OF assms(1) nd] takeWhile_all_digits dropWhile_all_digits
          parse_exponent_def pow10_def)
qed

lemma parseFloat_decimal:
  assumes "list_all isDigit ip" "ip \<noteq> []" "list_all isDigit fp"
  shows "parseFloat_str (ip @ CHR ''.'' # fp) = fl (of_nat (read_nat (ip @ fp)) / 10 ^ length fp)"
proof -
  obtain c cs where ip: "ip = c # cs" using assms(2) by (cases ip) auto
  then have c: "isDigit c" using assms(1) by simp
  have t: "dropWhile isSpace (ip @ CHR ''.'' # fp) = ip @ CHR ''.'' # fp"
    using isDigit_props(1)[OF c] by (simp add: ip)
  have i: "\<not> startsWith (ip @ CHR ''.'' # fp) ''Infinity''"
    using isDigit_props(5)[OF c] by (simp add: ip)
  show ?thesis
    unfolding parseFloat_str_def t Let_def
    using isDigit_props(3,4,5)[OF c] i parse_unsigned_decimal[OF assms]
    by (simp add: ip)
qed

lemma fixed_digits_split:
  assumes "0 < d"
  shows "\<exists>ip fp. fixed_digits d n = ip @ CHR ''.'' # fp \<and> list_all isDigit ip \<and> ip \<noteq> []
           \<and> list_all isDigit fp \<and> length fp = d \<and> read_nat (ip @ fp) = n"
proof -
  let ?m = "show_nat n"
  let ?m' = "if length ?m \<le> d then replicate (d + 1 - length ?m) (CHR ''0'') @ ?m else ?m"
  have dig: "list_all isDigit ?m'"
    using show_nat_digits[of n] by (auto simp: list_all_iff isDigit_def)
  have len: "d < length ?m'" by auto
  have val: "read_nat ?m' = n" by (simp add: read_nat_zeros read_nat_show)
  let ?ip = "take (length ?m' - d) ?m'" and ?fp = "drop (length ?m' - d) ?m'"
  have 1: "fixed_digits d n = ?ip @ CHR ''.'' # ?fp"
    using assms by (simp add: fixed_digits_def Let_def)
  have 2: "list_all isDigit ?ip" "list_all isDigit ?fp"
    using dig by (auto simp: list_all_iff dest: in_set_takeD in_set_dropD)
  have 3: "?ip \<noteq> []" using len by auto
  have 4: "length ?fp = d" using len by auto
  have 5: "read_nat (?ip @ ?fp) = n" using val by simp
  show ?thesis using 1 2 3 4 5 by blast
qed

lemma parse_fixed_digits:
  assumes "0 < d"
  shows "parseFloat_str (fixed_digits d n) = fl (of_nat n / 10 ^ d)"
proof -
  obtain ip fp where f: "fixed_digits d n = ip @ CHR ''.'' # fp" "list_all isDigit ip" "ip \<noteq> []"
    "list_all isDigit fp" "length fp = d" "read_nat (ip @ fp) = n"
    using fixed_digits_split[OF assms] by blast
  show ?thesis
    using parseFloat_decimal[OF f(2,3,4)] f(1,5,6) by simp
qed

lemma parse_toFixed:
  assumes "0 \<le> x" "x < 10 ^ 21"
  shows "parseFloat_str (toFixed nts 4 x) = fl (toFixed_value 4 x)"
proof -
  have "toFixed nts 4 x = fixed_digits 4 (round_scaled 4 x)"
    using assms by (simp add: toFixed_def)
  then show ?thesis by (simp add: parse_fixed_digits toFixed_value_def)
qed

section \<open>The sample inputs, evaluated\<close>

lemmas parse_defs =
  parseFloat_def parseFloat_str_def parse_unsigned_def parse_exponent_def pow10_def
  read_nat_def digitVal_def isDigit_def isSpace_def Let_def

lemmas fixed_defs = toFixed_def fixed_digits_def show_nat.simps digitChar_def Let_def

lemma sample_matches:
  "rx_match (toLowerCase prompt_no_address) fast_path_pattern = Some match_no_address"
  "rx_match (toLowerCase prompt_send_5_sol) fast_path_pattern = Some match_send_5_sol"
  "rx_match (toLowerCase prompt_send_half_sol) fast_path_pattern = Some match_send_half_sol"
  "rx_match (toLowerCase prompt_send_5_usdc) fast_path_pattern = Some match_send_5_usdc"
  by code_simp+

lemma sample_groups:
  "grp match_no_address 1 = Some ''5''" "grp match_no_address 2 = Some ''sol''"
  "grp match_send_5_sol 1 = Some ''5''" "grp match_send_5_sol 2 = Some ''sol''"
  "grp match_send_half_sol 1 = Some ''0.5''" "grp match_send_half_sol 2 = Some ''sol''"
  "grp match_send_5_usdc 1 = Some ''5''" "grp match_send_5_usdc 2 = Some ''usdc''"
  by (simp_all add: grp_def send_match_def match_no_address_def match_send_5_sol_def
        match_send_half_sol_def match_send_5_usdc_def)

lemma sample_parse:
  "parseFloat (Some ''5'') = Num 5" "parseFloat (Some ''0.5'') = Num (1 / 2)"
  "parseFloat (Some ''1'') = Num 1" "parseFloat_str ''0.5000'' = Num (1 / 2)"
  by (simp_all add: parse_defs fl_exact)

lemma sample_amounts:
  "parseFloat (grp match_no_address 1) = Num 5"
  "parseFloat (grp match_send_5_sol 1) = Num 5"
  "parseFloat (grp match_send_half_sol 1) = Num (1 / 2)"
  "parseFloat (grp match_send_5_usdc 1) = Num 5"
  by (simp_all only: sample_groups sample_parse)

lemmas sample_amounts_Suc = sample_amounts[unfolded One_nat_def]

lemma sample_detect:
  "detectSolanaAddress sample_env prompt_no_address = Inr None"
  "detectSolanaAddress sample_env prompt_send_5_sol = Inr (Some sample_address)"
  "detectSolanaAddress sample_env prompt_send_half_sol = Inr (Some sample_address)"
  "detectSolanaAddress sample_env prompt_send_5_usdc = Inr (Some sample_address)"
  by code_simp+

lemma sample_full:
  "fullMessage match_no_address (wallet_context b prompt_no_address) = prompt_no_address"
  "fullMessage match_send_5_sol (wallet_context b prompt_send_5_sol) = prompt_send_5_sol"
  "fullMessage match_send_half_sol (wallet_context b prompt_send_half_sol) = prompt_send_half_sol"
  "fullMessage match_send_5_usdc (wallet_context b prompt_send_5_usdc) = prompt_send_5_usdc"
  by (simp_all add: fullMessage_def wallet_context_def falsy_str_def prompt_no_address_def
        prompt_send_5_sol_def prompt_send_half_sol_def prompt_send_5_usdc_def)

lemma sample_upper:
  "toUpperCase ''sol'' = ''SOL''" "toUpperCase ''usdc'' \<noteq> ''SOL''"
  "toUpperCase ''usdc'' = ''USDC''" "toUpperCase ''about'' = ''ABOUT''"
  by code_simp+

lemma sample_address_nonempty: "sample_address \<noteq> []"
  by (simp add: sample_address_def)

lemma wallet_context_fields:
  "walletConnected (wallet_context b p)" "balance (wallet_context b p) = b"
  by (simp_all add: wallet_context_def)



lemma sample_fee_checks:
  "num_greater (fl (1 / 2 + transactionFee)) (1 / 2)"
  "num_greater (num_add (Num (1 / 2)) transactionFee) (1 / 2)"
  "\<not> num_greater (fl (5 + transactionFee)) 10"
  by (simp_all add: fl_sample_sums)

text \<open>
  With a balance of 0.5, the prompt \<^verbatim>\<open>Send 0.499995 SOL to <address>\<close> passes the fee check:
  the amount and the fee are more than 0.5 as rationals, and their rounded sum is 0.5.
\<close>

lemma near_half_facts:
  "near_half = 9007109182748445 / 2 ^ 54"
  "0 < near_half" "near_half \<le> 1 / 2" "1 / 2 < near_half + transactionFee"
  "fl (near_half + transactionFee) = Num (1 / 2)"
proof -
  show v: "near_half = 9007109182748445 / 2 ^ 54"
    unfolding near_half_def by (rule rounded_sum_meets_balance(1))
  show "0 < near_half" "near_half \<le> 1 / 2" by (simp_all add: v)
  show "1 / 2 < near_half + transactionFee"
    unfolding v by (rule rounded_sum_meets_balance(2))
  show "fl (near_half + transactionFee) = Num (1 / 2)"
    unfolding v using rounded_sum_meets_balance(3) by (simp only: num_add.simps)
qed

lemma near_half_match:
  "rx_match (toLowerCase prompt_send_near_half) fast_path_pattern = Some match_send_near_half"
  "detectSolanaAddress sample_env prompt_send_near_half = Inr (Some sample_address)"
  by code_simp+

lemma near_half_amount: "parseFloat (grp match_send_near_half 1) = Num near_half"
proof -
  have "parseFloat (Some ''0.499995'') = fl (499995 / 1000000)"
    by (simp add: parse_defs)
  also have "\<dots> = Num near_half"
    unfolding fl_def near_half_def[symmetric] by (simp add: near_half_facts(1))
  finally show ?thesis
    by (simp add: grp_def match_send_near_half_def send_match_def)
qed

lemma near_half_transfer:
  "transfer_handler sample_env match_send_near_half (wallet_context (1 / 2) prompt_send_near_half)
     = Inr (confirm_transfer_response sample_env sample_address (Num near_half) ''SOL'')"
proof -
  have g: "grp match_send_near_half 2 = Some ''sol''"
    by (simp add: grp_def match_send_near_half_def send_match_def)
  have f: "fullMessage match_send_near_half (wallet_context (1 / 2) prompt_send_near_half)
             = prompt_send_near_half"
    by (simp add: fullMessage_def wallet_context_def falsy_str_def prompt_send_near_half_def)
  show ?thesis
    using near_half_facts(2,3)
    by (simp add: transfer_handler_def Let_def wallet_context_fields g f near_half_match(2)
          sample_upper near_half_amount[unfolded One_nat_def] falsy_str_def
          sample_address_nonempty near_half_facts(5))
qed

section \<open>Claims about the transaction safety guard\<close>

text \<open>
  Claim C1. When the wallet is connected and the address detector finds no address in
  the raw message (it returns \<^verbatim>\<open>null\<close>, or an empty text), the transfer handler returns
  the clarification that asks for a valid Solana address, with no intent. And whenever
  the handler returns a transfer intent, its recipient is the non-empty text the
  detector returned for the raw message. The handler reads the token from the second
  capture group, which every match the router hands over carries
  (\<open>transfer_matches_carry_groups\<close>).
\<close>

theorem transfer_needs_detected_address:
  "(walletConnected ctx \<and> grp m 2 = Some t
      \<and> detectSolanaAddress e (fullMessage m ctx) = Inr found \<and> falsy_str found
      \<longrightarrow> transfer_handler e m ctx =
           Inr \<lparr>message = ''I couldn't find a valid Solana wallet address in your message. Please provide a complete Solana address.'',
                intent = None,
                suggestions = Some [''What does a Solana address look like?'',
                                    ''How do I copy a wallet address?'']\<rparr>)
   \<and> (transfer_handler e m ctx = Inr r \<and> intent r = Some (TransferIntent rc a tk)
      \<longrightarrow> detectSolanaAddress e (fullMessage m ctx) = Inr (Some rc) \<and> rc \<noteq> [])"
proof (intro conjI impI)
  assume "walletConnected ctx \<and> grp m 2 = Some t
      \<and> detectSolanaAddress e (fullMessage m ctx) = Inr found \<and> falsy_str found"
  then show "transfer_handler e m ctx =
           Inr \<lparr>message = ''I couldn't find a valid Solana wallet address in your message. Please provide a complete Solana address.'',
                intent = None,
                suggestions = Some [''What does a Solana address look like?'',
                                    ''How do I copy a wallet address?'']\<rparr>"
    by (simp add: transfer_handler_def Let_def no_address_response_def)
next
  assume a: "transfer_handler e m ctx = Inr r \<and> intent r = Some (TransferIntent rc a tk)"
  then show "detectSolanaAddress e (fullMessage m ctx) = Inr (Some rc)"
    using transfer_handler_intent[of e m ctx r] by auto
  from a show "rc \<noteq> []"
    using transfer_handler_intent[of e m ctx r] by auto
qed

theorem transfer_needs_detected_address_witness:
  "walletConnected (wallet_context 10 prompt_no_address)
   \<and> grp match_no_address 2 = Some ''sol''
   \<and> detectSolanaAddress sample_env prompt_no_address = Inr None
   \<and> transfer_handler sample_env match_no_address (wallet_context 10 prompt_no_address) =
        Inr \<lparr>message = ''I couldn't find a valid Solana wallet address in your message. Please provide a complete Solana address.'',
             intent = None,
             suggestions = Some [''What does a Solana address look like?'',
                                 ''How do I copy a wallet address?'']\<rparr>
   \<and> transfer_handler sample_env match_send_5_sol (wallet_context 10 prompt_send_5_sol) =
        Inr (confirm_transfer_response sample_env sample_address (Num 5) ''SOL'')
   \<and> intent (confirm_transfer_response sample_env sample_address (Num 5) ''SOL'')
        = Some (TransferIntent sample_address (Num 5) ''SOL'')
   \<and> detectSolanaAddress sample_env prompt_send_5_sol = Inr (Some sample_address)
   \<and> sample_address \<noteq> []"
proof -
  have h1: "walletConnected (wallet_context 10 prompt_no_address)
            \<and> grp match_no_address 2 = Some ''sol''
            \<and> detectSolanaAddress sample_env
                  (fullMessage match_no_address (wallet_context 10 prompt_no_address)) = Inr None
            \<and> falsy_str None"
    by (simp add: wallet_context_fields sample_groups sample_full sample_detect falsy_str_def)
  have ok: "transfer_handler sample_env match_send_5_sol (wallet_context 10 prompt_send_5_sol)
            = Inr (confirm_transfer_response sample_env sample_address (Num 5) ''SOL'')"
    by (simp add: transfer_handler_def Let_def wallet_context_fields sample_groups sample_full
          sample_detect sample_upper sample_amounts_Suc falsy_str_def sample_address_nonempty
          sample_fee_checks)
  have i: "intent (confirm_transfer_response sample_env sample_address (Num 5) ''SOL'')
           = Some (TransferIntent sample_address (Num 5) ''SOL'')"
    by (simp add: confirm_transfer_response_def)
  have a: "transfer_handler sample_env match_no_address (wallet_context 10 prompt_no_address) =
        Inr \<lparr>message = ''I couldn't find a valid Solana wallet address in your message. Please provide a complete Solana address.'',
             intent = None,
             suggestions = Some [''What does a Solana address look like?'',
                                 ''How do I copy a wallet address?'']\<rparr>"
    by (rule transfer_needs_detected_address[where t = "''sol''" and found = None,
          THEN conjunct1, THEN mp, OF h1])
  have b: "detectSolanaAddress sample_env
             (fullMessage match_send_5_sol (wallet_context 10 prompt_send_5_sol))
             = Inr (Some sample_address) \<and> sample_address \<noteq> []"
    by (rule transfer_needs_detected_address[THEN conjunct2, THEN mp, OF conjI[OF ok i]])
  show ?thesis
    using h1 a ok i b by (simp add: sample_full sample_detect)
qed





text \<open>
  Claim C4. For a transfer of a token other than SOL, with the wallet connected, a
  detected recipient and an amount \<open>A > 0\<close>, the handler emits the transfer intent exactly
  when the SOL balance is at least the fee 0.000005, and the insufficient-fee reply
  otherwise. The sender's token balances play no part: the result is the same for every
  list of token balances.
\<close>

theorem token_transfer_checks_fee_only:
  assumes "walletConnected ctx" "grp m 2 = Some t" "toUpperCase t \<noteq> ''SOL''"
    "detectSolanaAddress e (fullMessage m ctx) = Inr (Some rc)" "rc \<noteq> []"
    "parseFloat (grp m 1) = Num a" "0 < a"
  shows "transfer_handler e m (ctx\<lparr>tokenBalances := tb\<rparr>) =
           (if balance ctx < transactionFee
            then Inr \<lparr>message = ''You don't have enough SOL to cover the transaction fee. Your current SOL balance is ''
                         @ toFixed (numToString e) 6 (balance ctx) @ '' SOL, but you need at least ''
                         @ numToString e transactionFee @ '' SOL for fees.'',
                       intent = None,
                       suggestions = Some [''Check my balance'', ''How do I get more SOL?'']\<rparr>
            else Inr \<lparr>message = ''I'll help you send '' @ numToString e a @ '' '' @ toUpperCase t
                         @ '' to '' @ slice_first 4 rc @ ''...'' @ slice_last 4 rc
                         @ ''. Please confirm this transaction.'',
                       intent = Some (TransferIntent rc (Num a) (toUpperCase t)),
                       suggestions = Some [''Confirm'', ''Cancel'', ''Check my balance'']\<rparr>)"
  using assms
  by (simp add: transfer_handler_def Let_def falsy_str_def insufficient_fee_balance_response_def
        confirm_transfer_response_def showNumber_def fullMessage_tokenBalances)

theorem token_transfer_checks_fee_only_witness:
  "walletConnected (wallet_context 1 prompt_send_5_usdc)
   \<and> grp match_send_5_usdc 2 = Some ''usdc'' \<and> toUpperCase ''usdc'' \<noteq> ''SOL''
   \<and> detectSolanaAddress sample_env prompt_send_5_usdc = Inr (Some sample_address)
   \<and> parseFloat (grp match_send_5_usdc 1) = Num 5 \<and> (0 :: rat) < 5
   \<and> \<not> balance (wallet_context 1 prompt_send_5_usdc) < transactionFee
   \<and> tokenBalances (wallet_context 1 prompt_send_5_usdc) = []
   \<and> transfer_handler sample_env match_send_5_usdc
        ((wallet_context 1 prompt_send_5_usdc)\<lparr>tokenBalances := []\<rparr>) =
        Inr \<lparr>message = ''I'll help you send '' @ numToString sample_env 5 @ '' USDC to ''
                 @ slice_first 4 sample_address @ ''...'' @ slice_last 4 sample_address
                 @ ''. Please confirm this transaction.'',
             intent = Some (TransferIntent sample_address (Num 5) ''USDC''),
             suggestions = Some [''Confirm'', ''Cancel'', ''Check my balance'']\<rparr>"
proof -
  have h1: "walletConnected (wallet_context 1 prompt_send_5_usdc)"
    by (rule wallet_context_fields)
  have h4: "detectSolanaAddress sample_env
              (fullMessage match_send_5_usdc (wallet_context 1 prompt_send_5_usdc))
            = Inr (Some sample_address)"
    by (simp add: sample_full sample_detect)
  have h7: "(0 :: rat) < 5" by simp
  have b: "\<not> balance (wallet_context 1 prompt_send_5_usdc) < transactionFee"
    by (simp add: wallet_context_fields transactionFee_value)
  have tb: "tokenBalances (wallet_context 1 prompt_send_5_usdc) = []"
    by (simp add: wallet_context_def)
  show ?thesis
    using token_transfer_checks_fee_only[OF h1 sample_groups(8) sample_upper(2) h4
        sample_address_nonempty sample_amounts(4) h7, where tb = "[]"]
      h1 h7 b tb
    by (simp add: sample_groups sample_upper sample_detect sample_amounts sample_amounts_Suc)
qed

text \<open>
  Claim C5. For a SOL transfer with the wallet connected, a detected recipient and an
  amount \<open>A\<close> greater than the balance \<open>B\<close> (a balance is never negative), the handler
  returns the insufficient-balance reply with no intent. Its suggestions are two fixed
  texts, with no amount in them. The reply is this one although \<open>A + 0.000005 > B\<close> holds
  as well: the check of the amount alone comes first.
\<close>

theorem insufficient_balance_first:
  assumes "walletConnected ctx" "grp m 2 = Some t" "toUpperCase t = ''SOL''"
    "detectSolanaAddress e (fullMessage m ctx) = Inr (Some rc)" "rc \<noteq> []"
    "parseFloat (grp m 1) = Num a" "0 \<le> balance ctx" "balance ctx < a"
  shows "transfer_handler e m ctx =
           Inr \<lparr>message = ''You don't have enough SOL for this transfer. Your current balance is ''
                   @ toFixed (numToString e) 4 (balance ctx) @ '' SOL, but you're trying to send ''
                   @ numToString e a @ '' SOL.'',
                intent = None,
                suggestions = Some [''Check my balance'', ''How do I get more SOL?'']\<rparr>
         \<and> balance ctx < a + transactionFee"
  using assms
  by (simp add: transfer_handler_def Let_def falsy_str_def insufficient_balance_response_def
        showNumber_def transactionFee_value)

theorem insufficient_balance_first_witness:
  "walletConnected (wallet_context 1 prompt_send_5_sol)
   \<and> grp match_send_5_sol 2 = Some ''sol'' \<and> toUpperCase ''sol'' = ''SOL''
   \<and> detectSolanaAddress sample_env prompt_send_5_sol = Inr (Some sample_address)
   \<and> parseFloat (grp match_send_5_sol 1) = Num 5
   \<and> 0 \<le> balance (wallet_context 1 prompt_send_5_sol)
   \<and> balance (wallet_context 1 prompt_send_5_sol) < 5
   \<and> transfer_handler sample_env match_send_5_sol (wallet_context 1 prompt_send_5_sol) =
        Inr \<lparr>message = ''You don't have enough SOL for this transfer. Your current balance is ''
                 @ toFixed (numToString sample_env) 4 1 @ '' SOL, but you're trying to send ''
                 @ numToString sample_env 5 @ '' SOL.'',
             intent = None,
             suggestions = Some [''Check my balance'', ''How do I get more SOL?'']\<rparr>"
proof -
  have h1: "walletConnected (wallet_context 1 prompt_send_5_sol)"
    by (rule wallet_context_fields)
  have h4: "detectSolanaAddress sample_env
              (fullMessage match_send_5_sol (wallet_context 1 prompt_send_5_sol))
            = Inr (Some sample_address)"
    by (simp add: sample_full sample_detect)
  have h7: "0 \<le> balance (wallet_context 1 prompt_send_5_sol)"
    by (simp add: wallet_context_fields)
  have h8: "balance (wallet_context 1 prompt_send_5_sol) < 5"
    by (simp add: wallet_context_fields)
  show ?thesis
    using insufficient_balance_first[OF h1 sample_groups(4) sample_upper(1) h4
        sample_address_nonempty sample_amounts(2) h7 h8]
      h1 h7 h8
    by (simp add: sample_groups sample_upper sample_detect sample_amounts sample_amounts_Suc wallet_context_fields)
qed

section \<open>Claims about the conversation memory\<close>

lemma take_append_take: "take n (xs @ take n ys) = take n (xs @ ys)"
  by (simp add: min_def)

lemma unshift_capped_take:
  "length xs \<le> cap \<Longrightarrow> unshift_capped cap x xs = take cap (x # xs)"
  by (cases "length xs = cap") (auto simp: unshift_capped_def Let_def butlast_conv_take)

lemma record_topic_caps: "within_caps cc \<Longrightarrow> within_caps (record_topic opn cc)"
  by (auto simp: within_caps_def record_topic_def Let_def unshift_capped_def)

lemma record_topic_tokens: "recentTokens (record_topic opn cc) = recentTokens cc"
  by (simp add: record_topic_def Let_def)

lemma record_token_caps: "within_caps cc \<Longrightarrow> within_caps (record_token cc tok)"
  by (auto simp: within_caps_def record_token_def Let_def unshift_capped_def)

lemma record_token_tokens:
  "length (recentTokens cc) \<le> 10 \<Longrightarrow>
   recentTokens (record_token cc tok) = take 10 (tok # recentTokens cc)"
  by (simp add: record_token_def Let_def unshift_capped_take)

lemma fold_record_token_caps: "within_caps cc \<Longrightarrow> within_caps (foldl record_token cc toks)"
  by (induction toks arbitrary: cc) (auto simp: record_token_caps)

lemma fold_record_token_tokens:
  "length (recentTokens cc) \<le> 10 \<Longrightarrow>
   recentTokens (foldl record_token cc toks) = take 10 (rev toks @ recentTokens cc)"
proof (induction toks arbitrary: cc)
  case Nil
  then show ?case by simp
next
  case (Cons t ts)
  have len: "length (recentTokens (record_token cc t)) \<le> 10"
    using Cons.prems by (simp add: record_token_tokens)
  have "recentTokens (foldl record_token (record_token cc t) ts)
        = take 10 (rev ts @ take 10 (t # recentTokens cc))"
    using Cons.IH[OF len] Cons.prems by (simp add: record_token_tokens)
  also have "\<dots> = take 10 (rev ts @ t # recentTokens cc)"
    by (rule take_append_take)
  finally show ?case by simp
qed

lemma infer_style_fields:
  "recentTopics (infer_style u cc) = recentTopics cc"
  "recentTokens (infer_style u cc) = recentTokens cc"
  "preferredActions (userPreferences (infer_style u cc)) = preferredActions (userPreferences cc)"
  "favoriteTokens (userPreferences (infer_style u cc)) = favoriteTokens (userPreferences cc)"
  by (simp_all add: infer_style_def Let_def)

lemma generateSuggestions_fields:
  "recentTopics (generateSuggestions cc) = recentTopics cc"
  "recentTokens (generateSuggestions cc) = recentTokens cc"
  "userPreferences (generateSuggestions cc) = userPreferences cc"
  by (simp_all add: generateSuggestions_def Let_def)

lemma update_caps:
  "within_caps cc \<Longrightarrow> within_caps (updateConversationContext u opn toks cc)"
  using fold_record_token_caps[of "record_topic (the opn) cc" toks] fold_record_token_caps[of cc toks]
  by (simp add: within_caps_def updateConversationContext_def Let_def infer_style_fields
        generateSuggestions_fields record_topic_caps[unfolded within_caps_def])

lemma update_tokens:
  "length (recentTokens cc) \<le> 10 \<Longrightarrow>
   recentTokens (updateConversationContext u opn toks cc) = take 10 (rev toks @ recentTokens cc)"
  by (simp add: updateConversationContext_def Let_def infer_style_fields
        generateSuggestions_fields fold_record_token_tokens record_topic_tokens)

lemma update_all_caps: "within_caps cc \<Longrightarrow> within_caps (update_all calls cc)"
  by (induction calls cc rule: update_all.induct) (auto simp: update_caps)

lemma update_all_tokens:
  "within_caps cc \<Longrightarrow>
   recentTokens (update_all calls cc) = take 10 (rev (inserted_tokens calls) @ recentTokens cc)"
proof (induction calls cc rule: update_all.induct)
  case (1 cc)
  then show ?case by (simp add: inserted_tokens_def within_caps_def)
next
  case (2 u opn toks calls cc)
  have len: "length (recentTokens cc) \<le> 10" using 2(2) by (simp add: within_caps_def)
  have "recentTokens (update_all calls (updateConversationContext u opn toks cc))
        = take 10 (rev (inserted_tokens calls) @ take 10 (rev toks @ recentTokens cc))"
    using 2(1)[OF update_caps[OF 2(2)]] by (simp add: update_tokens[OF len])
  also have "\<dots> = take 10 (rev (inserted_tokens calls) @ rev toks @ recentTokens cc)"
    by (rule take_append_take)
  finally show ?case by (simp add: inserted_tokens_def)
qed

lemma initial_within_caps: "within_caps (initial_conversationContext t0)"
  by (simp add: within_caps_def initial_conversationContext_def)

text \<open>
  Claim C9. The four buffers stay within their caps (8 recent topics, 10 recent tokens,
  3 preferred actions, 5 favourite tokens) through any sequence of calls of
  \<open>updateConversationContext\<close>, from the initial memory and from any memory within the
  caps. Once the calls have inserted more than 10 tokens, the recent tokens are exactly
  10 and the first of them is the token inserted last.
\<close>

theorem ring_buffers_bounded:
  "within_caps cc \<Longrightarrow>
     within_caps (update_all calls cc) \<and>
     (10 < length (inserted_tokens calls) \<longrightarrow>
        length (recentTokens (update_all calls cc)) = 10 \<and>
        hd (recentTokens (update_all calls cc)) = last (inserted_tokens calls))"
proof -
  assume w: "within_caps cc"
  have t: "recentTokens (update_all calls cc)
           = take 10 (rev (inserted_tokens calls) @ recentTokens cc)"
    by (rule update_all_tokens[OF w])
  show ?thesis
  proof (intro conjI impI)
    show "within_caps (update_all calls cc)" by (rule update_all_caps[OF w])
  next
    assume "10 < length (inserted_tokens calls)"
    then show "length (recentTokens (update_all calls cc)) = 10" by (simp add: t)
  next
    assume n: "10 < length (inserted_tokens calls)"
    then have ne: "inserted_tokens calls \<noteq> []" by auto
    then show "hd (recentTokens (update_all calls cc)) = last (inserted_tokens calls)"
      by (simp add: t hd_rev)
  qed
qed

theorem ring_buffers_bounded_witness:
  "within_caps (initial_conversationContext 0)
   \<and> 10 < length (inserted_tokens [(''Tell me more'', Some ''tokenInfo'', eleven_tokens)])
   \<and> within_caps (update_all [(''Tell me more'', Some ''tokenInfo'', eleven_tokens)]
                     (initial_conversationContext 0))
   \<and> length (recentTokens (update_all [(''Tell me more'', Some ''tokenInfo'', eleven_tokens)]
                             (initial_conversationContext 0))) = 10
   \<and> hd (recentTokens (update_all [(''Tell me more'', Some ''tokenInfo'', eleven_tokens)]
                         (initial_conversationContext 0))) = ''AKT''"
  using ring_buffers_bounded[where cc = "initial_conversationContext 0"
      and calls = "[(''Tell me more'', Some ''tokenInfo'', eleven_tokens)]"]
  by (simp add: initial_within_caps inserted_tokens_def eleven_tokens_def)

section \<open>Claims about the intent router\<close>

lemma swap_prompt_match:
  "first_match swap_patterns ''Swap 1 SOL to USDC'' =
     Some \<lparr>input = ''Swap 1 SOL to USDC'', index = 0, whole = ''Swap 1 SOL to USDC'',
           groups = [(3, ''USDC''), (2, ''SOL''), (1, ''1'')]\<rparr>"
  by code_simp

lemma swap_prompt_no_verb: "\<not> starts_with_transfer_verb (toLowerCase ''Swap 1 SOL to USDC'')"
  by code_simp

lemma swap_prompt_intent:
  "intent (fst (parseUserIntent e g ''Swap 1 SOL to USDC'' ctx))
     = Some (SwapIntent (Some ''SOL'') (Num 1))"
  by (simp add: parseUserIntent_def parseUserIntent_try_def Let_def swap_prompt_no_verb
        OPERATIONS_def swap_prompt_match run_operation_def swap_handler_def grp_def sample_parse
      split: option.split)

lemma swap_prompt_operation:
  "matched_operation ''Swap 1 SOL to USDC'' =
     Some (''swap'', \<lparr>input = ''Swap 1 SOL to USDC'', index = 0, whole = ''Swap 1 SOL to USDC'',
                      groups = [(3, ''USDC''), (2, ''SOL''), (1, ''1'')]\<rparr>)"
  by (simp add: matched_operation_def OPERATIONS_def swap_prompt_match)

text \<open>
  Claim C6, as amended. For the input \<^verbatim>\<open>Swap 1 SOL to USDC\<close> the swap operation matches,
  and the returned intent has the action \<^verbatim>\<open>swap\<close>, the price 1 and the token \<^verbatim>\<open>SOL\<close>: the
  handler takes the token from the second capture group, which is the token swapped
  from; \<^verbatim>\<open>USDC\<close> is the third group, which the handler does not read.
\<close>

theorem swap_scenario:
  "matched_operation ''Swap 1 SOL to USDC'' =
     Some (''swap'', \<lparr>input = ''Swap 1 SOL to USDC'', index = 0, whole = ''Swap 1 SOL to USDC'',
                      groups = [(3, ''USDC''), (2, ''SOL''), (1, ''1'')]\<rparr>)
   \<and> intent (fst (parseUserIntent e g ''Swap 1 SOL to USDC'' ctx))
       = Some (SwapIntent (Some ''SOL'') (Num 1))
   \<and> action (SwapIntent (Some ''SOL'') (Num 1)) = ''swap''"
  by (simp add: swap_prompt_operation swap_prompt_intent)

text \<open>The claim as first stated gives the intent the token \<^verbatim>\<open>USDC\<close>.\<close>

theorem swap_scenario_token_not_USDC:
  "intent (fst (parseUserIntent sample_env (initial_globals 0) ''Swap 1 SOL to USDC''
                  default_context))
     \<noteq> Some (SwapIntent (Some ''USDC'') (Num 1))"
  by (simp add: swap_prompt_intent)

lemma jup_prompt_matches:
  "first_match swap_patterns ''Tell me about JUP'' = None"
  "first_match balance_patterns ''Tell me about JUP'' = None"
  "first_match tokenInfo_patterns ''Tell me about JUP'' =
     Some \<lparr>input = ''Tell me about JUP'', index = 0, whole = ''Tell me about'',
           groups = [(1, ''about'')]\<rparr>"
  by code_simp+

lemma jup_prompt_no_verb: "\<not> starts_with_transfer_verb (toLowerCase ''Tell me about JUP'')"
  by code_simp

lemma about_is_no_token: "map_of TOKEN_INFO ''ABOUT'' = None"
  by (simp add: TOKEN_INFO_def)

lemma token_list: "join '', '' (map fst TOKEN_INFO)
  = ''SOL, USDC, USDT, BONK, JUP, JTO, RAY, PYTH, MEME, WIF, AKT''"
  by (simp add: TOKEN_INFO_def)

lemma jup_prompt_try:
  "parseUserIntent_try e g ''Tell me about JUP'' ctx =
     run_operation e g ''Tell me about JUP'' ctx ''tokenInfo''
       \<lparr>op_description = ''Get information about tokens'',
        patterns = tokenInfo_patterns, handler = tokenInfo_handler\<rparr>
       \<lparr>input = ''Tell me about JUP'', index = 0, whole = ''Tell me about'',
        groups = [(1, ''about'')]\<rparr>"
  by (simp add: parseUserIntent_try_def Let_def jup_prompt_no_verb OPERATIONS_def
        jup_prompt_matches)

lemma jup_prompt_intent: "intent (fst (parseUserIntent e g ''Tell me about JUP'' ctx)) = None"
  by (simp add: parseUserIntent_def jup_prompt_try run_operation_def Let_def
        tokenInfo_handler_def grp_def sample_upper about_is_no_token
      split: option.split)

lemma no_tip_at_start:
  "getPersonalizedTips sample_env
     (updateConversationContext p (Some ''tokenInfo'') [] (initial_conversationContext 0))
     default_context = None"
  by (simp add: getPersonalizedTips_def updateConversationContext_def Let_def falsy_str_def
        record_topic_def unshift_capped_def initial_conversationContext_def infer_style_def
        generateSuggestions_def default_context_def sample_env_def)

lemma jup_prompt_message:
  "message (fst (parseUserIntent sample_env (initial_globals 0) ''Tell me about JUP''
                   default_context))
     = ''I don't have information about about. Currently I have data on: SOL, USDC, USDT, BONK, JUP, JTO, RAY, PYTH, MEME, WIF, AKT''"
  by (simp add: parseUserIntent_def jup_prompt_try run_operation_def Let_def
        tokenInfo_handler_def grp_def sample_upper about_is_no_token token_list
        initial_globals_def no_tip_at_start)

text \<open>
  Claim C7 on the code. For the input \<^verbatim>\<open>Tell me about JUP\<close> the tokenInfo operation does
  fire, but its first pattern reads \<^verbatim>\<open>me\<close> as the second word and captures \<^verbatim>\<open>about\<close> as
  the token. There is no token \<^verbatim>\<open>ABOUT\<close>, so the reply has no intent and lists the known
  symbols; it names neither the category \<^verbatim>\<open>DEX token\<close> nor the year 2024.
\<close>

theorem tell_me_about_JUP:
  "matched_operation ''Tell me about JUP'' =
     Some (''tokenInfo'', \<lparr>input = ''Tell me about JUP'', index = 0, whole = ''Tell me about'',
                           groups = [(1, ''about'')]\<rparr>)
   \<and> intent (fst (parseUserIntent e g ''Tell me about JUP'' ctx)) = None
   \<and> message (fst (parseUserIntent sample_env (initial_globals 0) ''Tell me about JUP''
                      default_context))
       = ''I don't have information about about. Currently I have data on: SOL, USDC, USDT, BONK, JUP, JTO, RAY, PYTH, MEME, WIF, AKT''
   \<and> \<not> includes_str ''I don't have information about about. Currently I have data on: SOL, USDC, USDT, BONK, JUP, JTO, RAY, PYTH, MEME, WIF, AKT'' ''DEX token''
   \<and> \<not> includes_str ''I don't have information about about. Currently I have data on: SOL, USDC, USDT, BONK, JUP, JTO, RAY, PYTH, MEME, WIF, AKT'' ''2024''"
proof -
  have m: "matched_operation ''Tell me about JUP'' =
     Some (''tokenInfo'', \<lparr>input = ''Tell me about JUP'', index = 0, whole = ''Tell me about'',
                           groups = [(1, ''about'')]\<rparr>)"
    by (simp add: matched_operation_def OPERATIONS_def jup_prompt_matches)
  have n1: "\<not> includes_str ''I don't have information about about. Currently I have data on: SOL, USDC, USDT, BONK, JUP, JTO, RAY, PYTH, MEME, WIF, AKT'' ''DEX token''"
    by code_simp
  have n2: "\<not> includes_str ''I don't have information about about. Currently I have data on: SOL, USDC, USDT, BONK, JUP, JTO, RAY, PYTH, MEME, WIF, AKT'' ''2024''"
    by code_simp
  show ?thesis
    by (intro conjI m jup_prompt_intent jup_prompt_message n1 n2)
qed

text \<open>
  The handler does give the category and the year once the symbol is captured: the
  second tokenInfo pattern does so for \<^verbatim>\<open>What is JUP\<close>.
\<close>

lemma what_is_jup_matches:
  "first_match swap_patterns ''What is JUP'' = None"
  "first_match balance_patterns ''What is JUP'' = None"
  "first_match tokenInfo_patterns ''What is JUP'' =
     Some \<lparr>input = ''What is JUP'', index = 0, whole = ''What is JUP'',
           groups = [(1, ''JUP'')]\<rparr>"
  "\<not> starts_with_transfer_verb (toLowerCase ''What is JUP'')"
  "toUpperCase ''JUP'' = ''JUP''"
  by code_simp+

lemma jup_entry:
  "map_of TOKEN_INFO ''JUP'' =
     Some \<lparr>name = ''Jupiter'', decimals = 6,
      description = ''Governance token for Jupiter, Solana's leading DEX aggregator'',
      useCases = ''Governance, fee sharing, liquidity provision incentives'',
      price_range = ''Trending upward since 2024 launch'',
      trend_indicators = [''Trading volume'', ''TVL growth'', ''Protocol revenue''],
      category = ''DEX token'', year_launched = 2024,
      market_sentiment = ''Strong as leading Solana DEX'', issuer = ''Jupiter Community''\<rparr>"
  by (simp add: TOKEN_INFO_def)

lemma what_is_JUP:
  "intent (fst (parseUserIntent e g ''What is JUP'' ctx)) = Some (TokenInfoIntent ''JUP'')"
  by (simp add: parseUserIntent_def parseUserIntent_try_def Let_def what_is_jup_matches
        OPERATIONS_def run_operation_def tokenInfo_handler_def grp_def jup_entry
      split: option.split prod.split)

lemma transfer_prompt_facts:
  "starts_with_transfer_verb (toLowerCase prompt_send_5_sol)"
  "rx_match prompt_send_5_sol generic_swap_pattern =
     Some \<lparr>input = prompt_send_5_sol, index = 5, whole = drop 5 prompt_send_5_sol,
           groups = [(3, sample_address), (2, ''SOL''), (1, ''5'')]\<rparr>"
  by code_simp+

text \<open>
  Claim C3. When the lower-cased prompt starts with one of the four transfer verbs and
  the strict pattern matches it, the router returns what the transfer handler returns
  for that match and the context extended with the original prompt, before the catalog
  is consulted and without touching the module state. The result is therefore never a
  swap intent, although the generic swap pattern may match the same prompt.
\<close>

theorem fast_path_wins:
  assumes "starts_with_transfer_verb (toLowerCase p)"
    and "rx_match (toLowerCase p) fast_path_pattern = Some m"
  shows "parseUserIntent_try e g p ctx
           = (transfer_handler e m (ctx\<lparr>originalPrompt := Some p\<rparr>), g)
       \<and> snd (parseUserIntent e g p ctx) = g
       \<and> intent (fst (parseUserIntent e g p ctx)) \<noteq> Some (SwapIntent t a)"
proof -
  have 1: "parseUserIntent_try e g p ctx
             = (transfer_handler e m (ctx\<lparr>originalPrompt := Some p\<rparr>), g)"
    using assms by (simp add: parseUserIntent_try_def Let_def)
  have 2: "intent (fst (parseUserIntent e g p ctx)) \<noteq> Some (SwapIntent t a)"
    using transfer_handler_no_swap[of e m "ctx\<lparr>originalPrompt := Some p\<rparr>"]
    by (cases "transfer_handler e m (ctx\<lparr>originalPrompt := Some p\<rparr>)")
       (simp_all add: parseUserIntent_def 1 fallback_response_def)
  have 3: "snd (parseUserIntent e g p ctx) = g"
    by (cases "transfer_handler e m (ctx\<lparr>originalPrompt := Some p\<rparr>)")
       (simp_all add: parseUserIntent_def 1)
  show ?thesis using 1 2 3 by simp
qed

theorem fast_path_wins_witness:
  "starts_with_transfer_verb (toLowerCase prompt_send_5_sol)
   \<and> rx_match (toLowerCase prompt_send_5_sol) fast_path_pattern = Some match_send_5_sol
   \<and> rx_match prompt_send_5_sol generic_swap_pattern =
       Some \<lparr>input = prompt_send_5_sol, index = 5, whole = drop 5 prompt_send_5_sol,
             groups = [(3, sample_address), (2, ''SOL''), (1, ''5'')]\<rparr>
   \<and> parseUserIntent_try sample_env (initial_globals 0) prompt_send_5_sol
        (wallet_context 10 prompt_send_5_sol)
       = (transfer_handler sample_env match_send_5_sol
            ((wallet_context 10 prompt_send_5_sol)\<lparr>originalPrompt := Some prompt_send_5_sol\<rparr>),
          initial_globals 0)
   \<and> snd (parseUserIntent sample_env (initial_globals 0) prompt_send_5_sol
             (wallet_context 10 prompt_send_5_sol)) = initial_globals 0
   \<and> intent (fst (parseUserIntent sample_env (initial_globals 0) prompt_send_5_sol
                    (wallet_context 10 prompt_send_5_sol)))
       \<noteq> Some (SwapIntent (Some ''SOL'') (Num 5))"
proof -
  note c = fast_path_wins[OF transfer_prompt_facts(1) sample_matches(2),
      where e = sample_env and g = "initial_globals 0"
        and ctx = "wallet_context 10 prompt_send_5_sol" and t = "Some ''SOL''" and a = "Num 5"]
  show ?thesis
    by (intro conjI transfer_prompt_facts sample_matches(2) c[THEN conjunct1]
          c[THEN conjunct2, THEN conjunct1] c[THEN conjunct2, THEN conjunct2])
qed

lemma invest_prompt_matches:
  "first_match swap_patterns ''investment strategy'' = None"
  "first_match balance_patterns ''investment strategy'' = None"
  "first_match tokenInfo_patterns ''investment strategy'' = None"
  "first_match price_patterns ''investment strategy'' = None"
  "first_match history_patterns ''investment strategy'' = None"
  "first_match marketTrends_patterns ''investment strategy'' = None"
  "first_match help_patterns ''investment strategy'' = None"
  "first_match transfer_patterns ''investment strategy'' = None"
  "first_match cryptoKnowledge_patterns ''investment strategy'' = None"
  "first_match marketAnalysis_patterns ''investment strategy'' = None"
  "first_match investmentEducation_patterns ''investment strategy'' =
     Some \<lparr>input = ''investment strategy'', index = 0, whole = ''investment strategy'',
           groups = []\<rparr>"
  "\<not> starts_with_transfer_verb (toLowerCase ''investment strategy'')"
  by code_simp+

lemma invest_prompt_raises:
  "fst (parseUserIntent_try e g ''investment strategy'' ctx) = Inl TypeError"
  by (simp add: parseUserIntent_try_def Let_def invest_prompt_matches OPERATIONS_def
        run_operation_def investmentEducation_handler_def grp_def)

lemma swap_prompt_memory:
  "suggestedNextActions
     (updateConversationContext ''Swap 1 SOL to USDC'' (Some ''swap'') []
        (initial_conversationContext 0))
     = [''Check my balance'', ''Show my transaction history'']"
  "getPersonalizedTips sample_env
     (updateConversationContext ''Swap 1 SOL to USDC'' (Some ''swap'') []
        (initial_conversationContext 0))
     default_context = None"
  by code_simp+

lemma swap_prompt_returns:
  "fst (parseUserIntent_try sample_env (initial_globals 0) ''Swap 1 SOL to USDC'' default_context)
     = Inr \<lparr>message = ''Swap operation initiated'',
            intent = Some (SwapIntent (Some ''SOL'') (Num 1)),
            suggestions = Some [''Check my balance'', ''Show my transaction history'']\<rparr>"
  by (simp add: parseUserIntent_try_def Let_def swap_prompt_no_verb OPERATIONS_def
        swap_prompt_match run_operation_def swap_handler_def grp_def sample_parse
        initial_globals_def swap_prompt_memory)

text \<open>
  Claim C8. \<open>parseUserIntent\<close> always returns a response. Whenever the body of its
  \<^verbatim>\<open>try\<close> block raises (in pattern matching, in a handler or in a collaborator), the
  response is the fixed fallback message with no intent and the suggestions
  \<^verbatim>\<open>Check my balance\<close> and \<^verbatim>\<open>What can you help me with?\<close>; otherwise it is the response the
  body returned. The module state is the one the body left.
\<close>

theorem parseUserIntent_total:
  "(fst (parseUserIntent_try e g p ctx) = Inl err \<longrightarrow>
      fst (parseUserIntent e g p ctx) =
        \<lparr>message = ''Sorry, I couldn't understand that command. Please try something like 'Send 0.001 SOL to [wallet address]'.'',
         intent = None,
         suggestions = Some [''Check my balance'', ''What can you help me with?'']\<rparr>)
   \<and> (fst (parseUserIntent_try e g p ctx) = Inr r \<longrightarrow> fst (parseUserIntent e g p ctx) = r)
   \<and> snd (parseUserIntent e g p ctx) = snd (parseUserIntent_try e g p ctx)"
  by (cases "parseUserIntent_try e g p ctx")
     (auto simp: parseUserIntent_def fallback_response_def split: sum.splits)

theorem parseUserIntent_total_witness:
  "fst (parseUserIntent_try sample_env (initial_globals 0) ''investment strategy'' default_context)
     = Inl TypeError
   \<and> fst (parseUserIntent sample_env (initial_globals 0) ''investment strategy'' default_context) =
        \<lparr>message = ''Sorry, I couldn't understand that command. Please try something like 'Send 0.001 SOL to [wallet address]'.'',
         intent = None,
         suggestions = Some [''Check my balance'', ''What can you help me with?'']\<rparr>
   \<and> fst (parseUserIntent_try sample_env (initial_globals 0) ''Swap 1 SOL to USDC'' default_context)
     = Inr \<lparr>message = ''Swap operation initiated'',
            intent = Some (SwapIntent (Some ''SOL'') (Num 1)),
            suggestions = Some [''Check my balance'', ''Show my transaction history'']\<rparr>
   \<and> fst (parseUserIntent sample_env (initial_globals 0) ''Swap 1 SOL to USDC'' default_context)
     = \<lparr>message = ''Swap operation initiated'',
        intent = Some (SwapIntent (Some ''SOL'') (Num 1)),
        suggestions = Some [''Check my balance'', ''Show my transaction history'']\<rparr>"
  by (intro conjI invest_prompt_raises swap_prompt_returns
        parseUserIntent_total[THEN conjunct1, THEN mp, OF invest_prompt_raises]
        parseUserIntent_total[THEN conjunct2, THEN conjunct1, THEN mp, OF swap_prompt_returns])

lemma please_prompt_facts:
  "\<not> starts_with_transfer_verb (toLowerCase prompt_please_send)"
  "prompt_please_send = ''Please send '' @ ''5'' @ '' '' @ ''SOL'' @ '' '' @ ''to'' @ '' ''
                         @ sample_address @ []"
  "number_text ''5''" "class_text Space '' ''" "class_text Word ''SOL''"
  "toLowerCase ''to'' = ''to''" "class_text Word sample_address"
  "first_match swap_patterns prompt_please_send =
     Some \<lparr>input = prompt_please_send, index = 12, whole = drop 12 prompt_please_send,
           groups = [(3, sample_address), (2, ''SOL''), (1, ''5'')]\<rparr>"
  by code_simp+

text \<open>
  Claim C10. A prompt whose lower-cased form does not start with a transfer verb skips
  the fast path. If it contains a number, white space, a word, white space, \<^verbatim>\<open>to\<close> (in
  any case), white space and a word, the swap operation, the first of the catalog,
  matches it: the router returns the swap intent built from the first matching swap
  pattern, and the transfer handler is not run.
\<close>

theorem generic_swap_shadows_transfer:
  assumes "\<not> starts_with_transfer_verb (toLowerCase p)"
    and "p = pre @ num @ s1 @ w1 @ s2 @ kw @ s3 @ w2 @ post"
    and "number_text num" "class_text Space s1" "class_text Word w1" "class_text Space s2"
    "toLowerCase kw = ''to''" "class_text Space s3" "class_text Word w2"
  shows "\<exists>m. first_match swap_patterns p = Some m
            \<and> matched_operation p = Some (''swap'', m)
            \<and> intent (fst (parseUserIntent e g p ctx))
                = Some (SwapIntent (grp m 2) (parseFloat (grp m 1)))"
proof -
  have "ms (length p) generic_swap_pattern (num @ s1 @ w1 @ s2 @ kw @ s3 @ w2 @ post) [] \<noteq> []"
    by (rule generic_swap_matches[OF assms(3-9)])
  then have "rx_match p generic_swap_pattern \<noteq> None"
    unfolding rx_match_def using search_from_finds[of p generic_swap_pattern _ pre] assms(2)
    by simp
  moreover have "generic_swap_pattern \<in> set swap_patterns" by (simp add: swap_patterns_def)
  ultimately obtain m where m: "first_match swap_patterns p = Some m"
    using first_match_finds by blast
  have op: "matched_operation p = Some (''swap'', m)"
    by (simp add: matched_operation_def swap_is_first[OF m])
  have "intent (fst (parseUserIntent e g p ctx))
          = Some (SwapIntent (grp m 2) (parseFloat (grp m 1)))"
    using assms(1) swap_is_first[OF m]
    by (simp add: parseUserIntent_def parseUserIntent_try_def Let_def OPERATIONS_def
          run_operation_def swap_handler_def split: option.split)
  with m op show ?thesis by blast
qed

theorem generic_swap_shadows_transfer_witness:
  "\<not> starts_with_transfer_verb (toLowerCase prompt_please_send)
   \<and> prompt_please_send = ''Please send '' @ ''5'' @ '' '' @ ''SOL'' @ '' '' @ ''to'' @ '' ''
                            @ sample_address @ []
   \<and> number_text ''5'' \<and> class_text Space '' '' \<and> class_text Word ''SOL''
   \<and> toLowerCase ''to'' = ''to'' \<and> class_text Word sample_address
   \<and> first_match swap_patterns prompt_please_send =
       Some \<lparr>input = prompt_please_send, index = 12, whole = drop 12 prompt_please_send,
             groups = [(3, sample_address), (2, ''SOL''), (1, ''5'')]\<rparr>
   \<and> intent (fst (parseUserIntent sample_env (initial_globals 0) prompt_please_send
                    (wallet_context 10 prompt_please_send)))
       = Some (SwapIntent (Some ''SOL'') (Num 5))"
proof -
  obtain m where m: "first_match swap_patterns prompt_please_send = Some m"
    and i: "intent (fst (parseUserIntent sample_env (initial_globals 0) prompt_please_send
                           (wallet_context 10 prompt_please_send)))
              = Some (SwapIntent (grp m 2) (parseFloat (grp m 1)))"
    using generic_swap_shadows_transfer[OF please_prompt_facts(1,2,3,4,5,4,6,4,7),
        where e = sample_env and g = "initial_globals 0"
          and ctx = "wallet_context 10 prompt_please_send"]
    by blast
  have "m = \<lparr>input = prompt_please_send, index = 12, whole = drop 12 prompt_please_send,
             groups = [(3, sample_address), (2, ''SOL''), (1, ''5'')]\<rparr>"
    using m please_prompt_facts(8) by simp
  then have "intent (fst (parseUserIntent sample_env (initial_globals 0) prompt_please_send
                           (wallet_context 10 prompt_please_send)))
              = Some (SwapIntent (Some ''SOL'') (Num 5))"
    using i by (simp add: grp_def sample_parse)
  then show ?thesis
    by (intro conjI please_prompt_facts)
qed

end
